theory Spec2Isabelle
  imports Main "HOL-Library.Word" "HOL-Library.AList"
begin

section \<open>Strings, optional values and errors of the host language\<close>

text \<open>
  A JavaScript string is a sequence of UTF-16 code units; \<open>length\<close>, \<open>substring\<close> and
  \<open>split\<close> count and cut code units. A literal of the source is written \<open>js ''...''\<close>.
\<close>

type_synonym jsstring = "16 word list"

definition js :: "string \<Rightarrow> jsstring" where
  "js s = map of_char s"

text \<open>
  A value that may be \<open>undefined\<close> is an option. \<open>truthy\<close> is the test that \<open>if (x)\<close>,
  \<open>!x\<close> and \<open>x || y\<close> make on an optional string: \<open>undefined\<close> and the empty string are
  falsy. \<open>truthyFlag\<close> is the same test on an optional boolean. \<open>tpl\<close> is the conversion
  a template literal applies to \<open>${x}\<close>.
\<close>

definition truthy :: "jsstring option \<Rightarrow> bool" where
  "truthy x = (case x of None \<Rightarrow> False | Some s \<Rightarrow> s \<noteq> [])"

definition truthyFlag :: "bool option \<Rightarrow> bool" where
  "truthyFlag x = (case x of None \<Rightarrow> False | Some b \<Rightarrow> b)"

definition tpl :: "jsstring option \<Rightarrow> jsstring" where
  "tpl x = (case x of None \<Rightarrow> js ''undefined'' | Some s \<Rightarrow> s)"

text \<open>
  \<open>s.substring(start, end)\<close> for non-negative integer arguments: both are clamped to the
  length and swapped when out of order.
\<close>

definition substring :: "nat \<Rightarrow> nat \<Rightarrow> jsstring \<Rightarrow> jsstring" where
  "substring start end' s =
     (let a = min start (length s); b = min end' (length s)
      in take (max a b - min a b) (drop (min a b) s))"

text \<open>
  \<open>s.split(sep)\<close> for a separator of one code unit: the segments between all its
  occurrences, in order; never an empty list.
\<close>

fun jsSplit :: "16 word \<Rightarrow> jsstring \<Rightarrow> jsstring list" where
  "jsSplit sep [] = [[]]"
| "jsSplit sep (c # cs) =
     (if c = sep then [] # jsSplit sep cs
      else (case jsSplit sep cs of
              [] \<Rightarrow> [[c]]
            | seg # segs \<Rightarrow> (c # seg) # segs))"

text \<open>\<open>xs[i]\<close>: \<open>undefined\<close> out of range.\<close>

definition at :: "'a list \<Rightarrow> nat \<Rightarrow> 'a option" where
  "at xs i = (if i < length xs then Some (xs ! i) else None)"

text \<open>
  Thrown values. \<open>Error m\<close> is \<open>new Error(m)\<close>, and any rejection of the gateway with
  message \<open>m\<close>; \<open>SyntaxError\<close> is what \<open>JSON.parse\<close> throws; \<open>TypeError\<close> is a property
  read on \<open>undefined\<close>.
\<close>

datatype error = Error jsstring | SyntaxError | TypeError

section \<open>JSON values and \<open>JSON.parse\<close>\<close>

text \<open>
  The values \<open>JSON.parse\<close> returns. A number is kept as the text that denotes it; an
  object is its properties in order of creation, each key once.
\<close>

datatype json =
  JNull | JBool bool | JNumber jsstring | JString jsstring
| JArray "json list" | JObject "(jsstring \<times> json) list"

datatype token =
  TLBrace | TRBrace | TLBracket | TRBracket | TColon | TComma
| TString jsstring | TNumber jsstring | TTrue | TFalse | TNull

definition isDigit :: "16 word \<Rightarrow> bool" where
  "isDigit c = (0x30 \<le> c \<and> c \<le> 0x39)"

definition isWhitespace :: "16 word \<Rightarrow> bool" where
  "isWhitespace c = (c = 0x20 \<or> c = 0x09 \<or> c = 0x0A \<or> c = 0x0D)"

definition hexDigit :: "16 word \<Rightarrow> 16 word option" where
  "hexDigit c =
     (if 0x30 \<le> c \<and> c \<le> 0x39 then Some (c - 0x30)
      else if 0x41 \<le> c \<and> c \<le> 0x46 then Some (c - 0x37)
      else if 0x61 \<le> c \<and> c \<le> 0x66 then Some (c - 0x57)
      else None)"

definition hex4 :: "16 word \<Rightarrow> 16 word \<Rightarrow> 16 word \<Rightarrow> 16 word \<Rightarrow> 16 word option" where
  "hex4 a b c d =
     (case (hexDigit a, hexDigit b, hexDigit c, hexDigit d) of
        (Some x, Some y, Some z, Some u) \<Rightarrow> Some (((x * 16 + y) * 16 + z) * 16 + u)
      | _ \<Rightarrow> None)"

text \<open>The character an escape \<open>\e\<close> stands for, \<open>\uXXXX\<close> apart.\<close>

definition escapeChar :: "16 word \<Rightarrow> 16 word option" where
  "escapeChar e =
     (if e = 0x22 then Some 0x22
      else if e = 0x5C then Some 0x5C
      else if e = 0x2F then Some 0x2F
      else if e = 0x62 then Some 0x08
      else if e = 0x66 then Some 0x0C
      else if e = 0x6E then Some 0x0A
      else if e = 0x72 then Some 0x0D
      else if e = 0x74 then Some 0x09
      else None)"

fun consString :: "16 word \<Rightarrow> (jsstring \<times> jsstring) option \<Rightarrow> (jsstring \<times> jsstring) option" where
  "consString c None = None"
| "consString c (Some (s, rest)) = Some (c # s, rest)"

text \<open>
  A string literal, read from after its opening quote: the string denoted and the input
  left after the closing quote.
\<close>

fun lexString :: "jsstring \<Rightarrow> (jsstring \<times> jsstring) option" where
  "lexString [] = None"
| "lexString (c # cs) =
     (if c = 0x22 then Some ([], cs)
      else if c = 0x5C then
        (case cs of
           [] \<Rightarrow> None
         | e # cs' \<Rightarrow>
             if e = 0x75 then
               (case cs' of
                  h1 # h2 # h3 # h4 # cs'' \<Rightarrow>
                    (case hex4 h1 h2 h3 h4 of
                       None \<Rightarrow> None
                     | Some u \<Rightarrow> consString u (lexString cs''))
                | _ \<Rightarrow> None)
             else
               (case escapeChar e of
                  None \<Rightarrow> None
                | Some d \<Rightarrow> consString d (lexString cs')))
      else if c < 0x20 then None
      else consString c (lexString cs))"

definition lexDigits :: "jsstring \<Rightarrow> (jsstring \<times> jsstring) option" where
  "lexDigits s =
     (if takeWhile isDigit s = [] then None
      else Some (takeWhile isDigit s, dropWhile isDigit s))"

definition lexInt :: "jsstring \<Rightarrow> (jsstring \<times> jsstring) option" where
  "lexInt s =
     (case s of
        [] \<Rightarrow> None
      | d # s' \<Rightarrow>
          if d = 0x30 then Some ([d], s')
          else if isDigit d then Some (d # takeWhile isDigit s', dropWhile isDigit s')
          else None)"

definition lexFrac :: "jsstring \<Rightarrow> (jsstring \<times> jsstring) option" where
  "lexFrac s =
     (case s of
        [] \<Rightarrow> Some ([], s)
      | c # s' \<Rightarrow>
          if c = 0x2E then
            (case lexDigits s' of None \<Rightarrow> None | Some (ds, rest) \<Rightarrow> Some (c # ds, rest))
          else Some ([], s))"

definition lexExp :: "jsstring \<Rightarrow> (jsstring \<times> jsstring) option" where
  "lexExp s =
     (case s of
        [] \<Rightarrow> Some ([], s)
      | c # s' \<Rightarrow>
          if c = 0x65 \<or> c = 0x45 then
            (case s' of
               [] \<Rightarrow> None
             | g # s'' \<Rightarrow>
                 if g = 0x2B \<or> g = 0x2D then
                   (case lexDigits s'' of
                      None \<Rightarrow> None
                    | Some (ds, rest) \<Rightarrow> Some (c # g # ds, rest))
                 else
                   (case lexDigits s' of
                      None \<Rightarrow> None
                    | Some (ds, rest) \<Rightarrow> Some (c # ds, rest)))
          else Some ([], s))"

text \<open>A number: its text and the input left after it.\<close>

definition lexNumber :: "jsstring \<Rightarrow> (jsstring \<times> jsstring) option" where
  "lexNumber s =
     (let (sign, s1) =
            (case s of [] \<Rightarrow> ([], s) | c # s' \<Rightarrow> if c = 0x2D then ([c], s') else ([], s))
      in case lexInt s1 of
           None \<Rightarrow> None
         | Some (i, s2) \<Rightarrow>
             (case lexFrac s2 of
                None \<Rightarrow> None
              | Some (f, s3) \<Rightarrow>
                  (case lexExp s3 of
                     None \<Rightarrow> None
                   | Some (e, s4) \<Rightarrow> Some (sign @ i @ f @ e, s4))))"

lemma consString_Some:
  "consString c r = Some (s, rest) \<Longrightarrow> \<exists>s'. r = Some (s', rest)"
  by (cases r) auto

lemma lexString_length: "lexString cs = Some (s, rest) \<Longrightarrow> length rest < length cs"
  by (induction cs arbitrary: s rest rule: lexString.induct)
     (fastforce split: if_splits list.splits option.splits dest!: consString_Some)+

lemma lexDigits_length: "lexDigits s = Some (ds, rest) \<Longrightarrow> length rest \<le> length s"
  by (auto simp: lexDigits_def length_dropWhile_le split: if_splits)

lemma lexInt_length: "lexInt s = Some (i, rest) \<Longrightarrow> length rest < length s"
  by (auto simp: lexInt_def length_dropWhile_le less_Suc_eq_le split: list.splits if_splits)

lemma lexFrac_length: "lexFrac s = Some (f, rest) \<Longrightarrow> length rest \<le> length s"
  by (auto simp: lexFrac_def split: list.splits if_splits option.splits
      dest!: lexDigits_length)

lemma lexExp_length: "lexExp s = Some (f, rest) \<Longrightarrow> length rest \<le> length s"
  by (auto simp: lexExp_def split: list.splits if_splits option.splits
      dest!: lexDigits_length)

lemma lexNumber_length: "lexNumber s = Some (n, rest) \<Longrightarrow> length rest < length s"
  by (auto simp: lexNumber_def split: list.splits if_splits option.splits prod.splits
      dest!: lexInt_length lexFrac_length lexExp_length)

fun consToken :: "token \<Rightarrow> token list option \<Rightarrow> token list option" where
  "consToken t None = None"
| "consToken t (Some ts) = Some (t # ts)"

function tokenize :: "jsstring \<Rightarrow> token list option" where
  "tokenize [] = Some []"
| "tokenize (c # cs) =
     (if isWhitespace c then tokenize cs
      else if c = 0x7B then consToken TLBrace (tokenize cs)
      else if c = 0x7D then consToken TRBrace (tokenize cs)
      else if c = 0x5B then consToken TLBracket (tokenize cs)
      else if c = 0x5D then consToken TRBracket (tokenize cs)
      else if c = 0x3A then consToken TColon (tokenize cs)
      else if c = 0x2C then consToken TComma (tokenize cs)
      else if c = 0x22 then
        (case lexString cs of
           None \<Rightarrow> None
         | Some (s, rest) \<Rightarrow> consToken (TString s) (tokenize rest))
      else if c = 0x2D \<or> isDigit c then
        (case lexNumber (c # cs) of
           None \<Rightarrow> None
         | Some (n, rest) \<Rightarrow> consToken (TNumber n) (tokenize rest))
      else if take 4 (c # cs) = js ''true'' then consToken TTrue (tokenize (drop 3 cs))
      else if take 5 (c # cs) = js ''false'' then consToken TFalse (tokenize (drop 4 cs))
      else if take 4 (c # cs) = js ''null'' then consToken TNull (tokenize (drop 3 cs))
      else None)"
  by pat_completeness auto
termination
  by (relation "measure length")
     (auto dest: lexString_length lexNumber_length simp: less_Suc_eq_le)

text \<open>
  The parser reads the tokens one by one. A frame is a container being read: the elements
  of an array so far; the properties of an object so far and the key whose value is
  awaited. Defining a key again replaces its value.
\<close>

datatype frame =
  ArrayFrame "json list"
| ObjectFrame "(jsstring \<times> json) list" "jsstring option"

datatype mode =
  ExpectValue | ExpectFirstElement | ExpectFirstKey | ExpectKey | ExpectColon
| AfterValue | Finished json

fun complete :: "json \<Rightarrow> frame list \<Rightarrow> (mode \<times> frame list) option" where
  "complete v [] = Some (Finished v, [])"
| "complete v (ArrayFrame xs # st) = Some (AfterValue, ArrayFrame (xs @ [v]) # st)"
| "complete v (ObjectFrame kvs (Some k) # st) =
     Some (AfterValue, ObjectFrame (AList.update k v kvs) None # st)"
| "complete v (ObjectFrame kvs None # st) = None"

definition expectsValue :: "mode \<Rightarrow> bool" where
  "expectsValue m = (m = ExpectValue \<or> m = ExpectFirstElement)"

fun parseStep :: "mode \<Rightarrow> frame list \<Rightarrow> token \<Rightarrow> (mode \<times> frame list) option" where
  "parseStep m st (TString s) =
     (if expectsValue m then complete (JString s) st
      else if m = ExpectFirstKey \<or> m = ExpectKey then
        (case st of
           ObjectFrame kvs None # st' \<Rightarrow> Some (ExpectColon, ObjectFrame kvs (Some s) # st')
         | _ \<Rightarrow> None)
      else None)"
| "parseStep m st (TNumber n) = (if expectsValue m then complete (JNumber n) st else None)"
| "parseStep m st TTrue = (if expectsValue m then complete (JBool True) st else None)"
| "parseStep m st TFalse = (if expectsValue m then complete (JBool False) st else None)"
| "parseStep m st TNull = (if expectsValue m then complete JNull st else None)"
| "parseStep m st TLBracket =
     (if expectsValue m then Some (ExpectFirstElement, ArrayFrame [] # st) else None)"
| "parseStep m st TLBrace =
     (if expectsValue m then Some (ExpectFirstKey, ObjectFrame [] None # st) else None)"
| "parseStep m st TRBracket =
     (if m = ExpectFirstElement \<or> m = AfterValue then
        (case st of ArrayFrame xs # st' \<Rightarrow> complete (JArray xs) st' | _ \<Rightarrow> None)
      else None)"
| "parseStep m st TRBrace =
     (if m = ExpectFirstKey \<or> m = AfterValue then
        (case st of ObjectFrame kvs None # st' \<Rightarrow> complete (JObject kvs) st' | _ \<Rightarrow> None)
      else None)"
| "parseStep m st TComma =
     (if m = AfterValue then
        (case st of
           ArrayFrame xs # st' \<Rightarrow> Some (ExpectValue, st)
         | ObjectFrame kvs None # st' \<Rightarrow> Some (ExpectKey, st)
         | _ \<Rightarrow> None)
      else None)"
| "parseStep m st TColon = (if m = ExpectColon then Some (ExpectValue, st) else None)"

fun parseTokens :: "mode \<Rightarrow> frame list \<Rightarrow> token list \<Rightarrow> json option" where
  "parseTokens m st [] = (case m of Finished v \<Rightarrow> Some v | _ \<Rightarrow> None)"
| "parseTokens m st (t # ts) =
     (case parseStep m st t of
        None \<Rightarrow> None
      | Some (m', st') \<Rightarrow> parseTokens m' st' ts)"

text \<open>\<open>JSON.parse(s)\<close>: the value, or the \<open>SyntaxError\<close> it throws.\<close>

definition JSON_parse :: "jsstring \<Rightarrow> error + json" where
  "JSON_parse s =
     (case tokenize s of
        None \<Rightarrow> Inl SyntaxError
      | Some ts \<Rightarrow>
          (case parseTokens ExpectValue [] ts of
             None \<Rightarrow> Inl SyntaxError
           | Some v \<Rightarrow> Inr v))"

text \<open>
  \<open>{...v}\<close>: the own enumerable properties of \<open>v\<close>. An array and a string have their
  indices, written in decimal, as keys; \<open>null\<close>, a boolean and a number have none.
\<close>

fun decimal :: "nat \<Rightarrow> jsstring" where
  "decimal n = (if n < 10 then [0x30 + of_nat n] else decimal (n div 10) @ [0x30 + of_nat (n mod 10)])"

definition indexed :: "json list \<Rightarrow> (jsstring \<times> json) list" where
  "indexed xs = zip (map decimal [0..<length xs]) xs"

definition spread :: "json \<Rightarrow> (jsstring \<times> json) list" where
  "spread v =
     (case v of
        JObject kvs \<Rightarrow> kvs
      | JArray xs \<Rightarrow> indexed xs
      | JString s \<Rightarrow> indexed (map (\<lambda>c. JString [c]) s)
      | _ \<Rightarrow> [])"

section \<open>The remote generation gateway\<close>

subsection \<open>Content generation: requests and responses\<close>

text \<open>\<open>Type.STRING\<close>, \<open>Type.ARRAY\<close> with its \<open>items\<close>, \<open>Type.OBJECT\<close> with its \<open>properties\<close>.\<close>

datatype schema = TypeString | TypeArray schema | TypeObject "(jsstring \<times> schema) list"

record blob =
  blobMimeType :: "jsstring option"
  data :: "jsstring option"

record part =
  partText :: "jsstring option"
  inlineData :: "blob option"

datatype contents = Prompt jsstring | Parts "part list"

datatype AspectRatio =
  SQUARE | PORTRAIT_3_4 | LANDSCAPE_4_3 | LANDSCAPE_16_9
| PORTRAIT_9_16 | LANDSCAPE_21_9 | PORTRAIT_2_3 | LANDSCAPE_3_2

datatype ImageSize = K1 | K2 | K4

record imageConfig =
  imageAspectRatio :: AspectRatio
  imageSize :: ImageSize

datatype tool = GoogleSearch

record generateContentConfig =
  thinkingBudget :: "nat option"
  responseMimeType :: "jsstring option"
  responseSchema :: "schema option"
  tools :: "tool list option"
  imageConfig :: "imageConfig option"

definition noConfig :: generateContentConfig where
  "noConfig =
     \<lparr>thinkingBudget = None, responseMimeType = None, responseSchema = None,
      tools = None, imageConfig = None\<rparr>"

record generateContentParameters =
  contentModel :: jsstring
  contents :: contents
  contentConfig :: generateContentConfig

record content =
  parts :: "part list option"

record web =
  webTitle :: "jsstring option"
  webUri :: "jsstring option"

record groundingChunk =
  web :: "web option"

record groundingMetadata =
  groundingChunks :: "groundingChunk list option"

record candidate =
  content :: "content option"
  groundingMetadata :: "groundingMetadata option"

text \<open>The response; \<open>responseText\<close> is its \<open>text\<close>.\<close>

record generateContentResponse =
  responseText :: "jsstring option"
  candidates :: "candidate list option"

subsection \<open>Video generation: requests and operations\<close>

record video =
  uri :: "jsstring option"

record generatedVideo =
  video :: "video option"

record generateVideosResponse =
  generatedVideos :: "generatedVideo list option"

text \<open>The operation handle; \<open>isDone\<close> is its optional field \<open>done\<close>.\<close>

record operation =
  isDone :: "bool option"
  response :: "generateVideosResponse option"

datatype videoAspectRatio = Landscape_16_9 | Portrait_9_16

record imageInput =
  imageBytes :: "jsstring option"
  mimeType :: jsstring

record generateVideosConfig =
  numberOfVideos :: nat
  resolution :: jsstring
  aspectRatio :: videoAspectRatio

record generateVideosParameters =
  model :: jsstring
  promptParam :: jsstring
  imageParam :: "imageInput option"
  config :: generateVideosConfig

subsection \<open>The environment of a run\<close>

record aistudio =
  hasSelectedApiKey :: "error + bool"
  openSelectKey :: "error + unit"

text \<open>
  What a poll run does to the outside, in order: a timer of so many milliseconds, a
  status re-query.
\<close>

datatype event = SetTimeout nat | GetVideosOperation

text \<open>
  The credential \<open>process.env.API_KEY\<close>, \<open>window.aistudio\<close>, and the calls of the gateway,
  each of which returns or rejects. The answer to a status re-query may depend on
  everything the run has done so far, so it takes the trace. \<open>engineMessage\<close> is the text
  the engine gives to the \<open>message\<close> of its own errors.
\<close>

record world =
  API_KEY :: "jsstring option"
  windowAistudio :: "aistudio option"
  generateContent :: "generateContentParameters \<Rightarrow> error + generateContentResponse"
  generateVideos :: "generateVideosParameters \<Rightarrow> error + operation"
  getVideosOperation :: "event list \<Rightarrow> operation \<Rightarrow> error + operation"
  engineMessage :: "error \<Rightarrow> jsstring"

definition message :: "world \<Rightarrow> error \<Rightarrow> jsstring" where
  "message w e = (case e of Error m \<Rightarrow> m | _ \<Rightarrow> engineMessage w e)"

text \<open>
  \<open>window.aistudio\<close>, when present, has both of its methods, as its interface declares.
  The function returns \<open>true\<close> on every path that returns.
\<close>

definition ensurePaidApiKey :: "world \<Rightarrow> error + bool" where
  "ensurePaidApiKey w =
     (case windowAistudio w of
        None \<Rightarrow> Inr True
      | Some a \<Rightarrow>
          (case hasSelectedApiKey a of
             Inl e \<Rightarrow> Inl e
           | Inr hasKey \<Rightarrow>
               if \<not> hasKey then
                 (case openSelectKey a of Inl e \<Rightarrow> Inl e | Inr _ \<Rightarrow> Inr True)
               else Inr True))"

section \<open>The job poller\<close>

text \<open>
  The loop \<open>while (!operation.done) { await sleep(5000); operation = await
  getVideosOperation({operation}) }\<close>, which both video functions contain. It returns the
  trace and the completed operation, or the error of a re-query that threw; \<open>None\<close> is a
  loop that never exits.
\<close>

partial_function (option) pollLoop ::
  "(event list \<Rightarrow> operation \<Rightarrow> error + operation) \<Rightarrow> event list \<Rightarrow> operation
     \<Rightarrow> (event list \<times> (error + operation)) option" where
  "pollLoop getOp tr operation =
     (if \<not> truthyFlag (isDone operation) then
        (case getOp tr operation of
           Inl e \<Rightarrow> Some (tr @ [SetTimeout 5000, GetVideosOperation], Inl e)
         | Inr operation' \<Rightarrow>
             pollLoop getOp (tr @ [SetTimeout 5000, GetVideosOperation]) operation')
      else Some (tr, Inr operation))"

text \<open>
  The same loop cut off after \<open>n\<close> iterations: the trace so far, and \<open>None\<close> when the loop
  is still polling.
\<close>

fun pollSteps ::
  "(event list \<Rightarrow> operation \<Rightarrow> error + operation) \<Rightarrow> nat \<Rightarrow> event list \<Rightarrow> operation
     \<Rightarrow> event list \<times> (error + operation) option" where
  "pollSteps getOp 0 tr operation =
     (if \<not> truthyFlag (isDone operation) then (tr, None) else (tr, Some (Inr operation)))"
| "pollSteps getOp (Suc n) tr operation =
     (if \<not> truthyFlag (isDone operation) then
        (case getOp tr operation of
           Inl e \<Rightarrow> (tr @ [SetTimeout 5000, GetVideosOperation], Some (Inl e))
         | Inr operation' \<Rightarrow>
             pollSteps getOp n (tr @ [SetTimeout 5000, GetVideosOperation]) operation')
      else (tr, Some (Inr operation)))"

text \<open>\<open>operation.response?.generatedVideos?.[0]?.video?.uri\<close>\<close>

definition downloadLink :: "operation \<Rightarrow> jsstring option" where
  "downloadLink operation =
     (case response operation of
        None \<Rightarrow> None
      | Some r \<Rightarrow>
          (case generatedVideos r of
             None \<Rightarrow> None
           | Some vs \<Rightarrow>
               (case vs of
                  [] \<Rightarrow> None
                | v # _ \<Rightarrow> (case video v of None \<Rightarrow> None | Some f \<Rightarrow> uri f))))"

text \<open>
  What follows the submission in both functions: the poll loop, the check of the download
  link, the credential appended. \<open>msg\<close> is the message of the error thrown when the link is
  falsy, the only thing in which the two functions differ there.
\<close>

definition awaitVideo ::
  "world \<Rightarrow> jsstring \<Rightarrow> operation \<Rightarrow> (event list \<times> (error + jsstring)) option" where
  "awaitVideo w msg operation =
     (case pollLoop (getVideosOperation w) [] operation of
        None \<Rightarrow> None
      | Some (tr, Inl e) \<Rightarrow> Some (tr, Inl e)
      | Some (tr, Inr operation') \<Rightarrow>
          if \<not> truthy (downloadLink operation') then Some (tr, Inl (Error msg))
          else Some (tr, Inr (tpl (downloadLink operation') @ js ''&key='' @ tpl (API_KEY w))))"

definition textToVideoParams :: "jsstring \<Rightarrow> videoAspectRatio \<Rightarrow> generateVideosParameters" where
  "textToVideoParams p ar =
     \<lparr>model = js ''veo-3.1-fast-generate-preview'', promptParam = p, imageParam = None,
      config = \<lparr>numberOfVideos = 1, resolution = js ''1080p'', aspectRatio = ar\<rparr>\<rparr>"

definition generateVideoFromPrompt ::
  "world \<Rightarrow> jsstring \<Rightarrow> videoAspectRatio \<Rightarrow> (event list \<times> (error + jsstring)) option" where
  "generateVideoFromPrompt w p ar =
     (case ensurePaidApiKey w of
        Inl e \<Rightarrow> Some ([], Inl e)
      | Inr _ \<Rightarrow>
          (case generateVideos w (textToVideoParams p ar) of
             Inl e \<Rightarrow> Some ([], Inl e)
           | Inr operation \<Rightarrow> awaitVideo w (js ''Video generation failed'') operation))"

definition imageToVideoParams ::
  "jsstring option \<Rightarrow> jsstring option \<Rightarrow> videoAspectRatio \<Rightarrow> generateVideosParameters" where
  "imageToVideoParams base64Image p ar =
     \<lparr>model = js ''veo-3.1-fast-generate-preview'',
      promptParam =
        (case p of
           None \<Rightarrow> js ''Animate this image cinematically''
         | Some s \<Rightarrow> if s \<noteq> [] then s else js ''Animate this image cinematically''),
      imageParam = Some \<lparr>imageBytes = base64Image, mimeType = js ''image/png''\<rparr>,
      config = \<lparr>numberOfVideos = 1, resolution = js ''1080p'', aspectRatio = ar\<rparr>\<rparr>"

definition animateImageWithVeo ::
  "world \<Rightarrow> jsstring option \<Rightarrow> jsstring option \<Rightarrow> videoAspectRatio
     \<Rightarrow> (event list \<times> (error + jsstring)) option" where
  "animateImageWithVeo w base64Image p ar =
     (case ensurePaidApiKey w of
        Inl e \<Rightarrow> Some ([], Inl e)
      | Inr _ \<Rightarrow>
          (case generateVideos w (imageToVideoParams base64Image p ar) of
             Inl e \<Rightarrow> Some ([], Inl e)
           | Inr operation \<Rightarrow> awaitVideo w (js ''Video animation failed'') operation))"

section \<open>The service functions for text and images\<close>

text \<open>The prompt of the strategy request, a template with the brand name and the goals.\<close>

definition strategyPrompt :: "jsstring \<Rightarrow> jsstring \<Rightarrow> jsstring" where
  \<open>strategyPrompt brand goals' =
     js ''Act as a senior marketing strategist for the brand "'' @
     brand @
     js ''". \<newline>'' @
     js ''  The brand's goal is: "'' @
     goals' @
     js ''".\<newline>'' @
     js ''  \<newline>'' @
     js ''  Develop a comprehensive viral growth strategy. Include:\<newline>'' @
     js ''  1. Core Value Proposition\<newline>'' @
     js ''  2. Target Audience Personas\<newline>'' @
     js ''  3. Key Campaign Angles\<newline>'' @
     js ''  4. A detailed content calendar idea for one week.\<newline>'' @
     js ''  \<newline>'' @
     js ''  Use deep reasoning to ensure the strategy is unique and actionable.''\<close>

definition generateStrategy :: "world \<Rightarrow> jsstring \<Rightarrow> jsstring \<Rightarrow> error + jsstring option" where
  "generateStrategy w brand goals' =
     (case generateContent w
             \<lparr>contentModel = js ''gemini-3-pro-preview'',
              contents = Prompt (strategyPrompt brand goals'),
              contentConfig = noConfig\<lparr>thinkingBudget := Some 32768\<rparr>\<rparr> of
        Inl e \<Rightarrow> Inl e
      | Inr r \<Rightarrow> Inr (responseText r))"

text \<open>
  The prompt of the extraction request: the text before and the text after the embedded
  strategy text.
\<close>

definition extractPromptHead :: jsstring where
  \<open>extractPromptHead =
     js ''Analyze the following marketing strategy and extract structured campaign assets.\<newline>'' @
     js ''  \<newline>'' @
     js ''  Strategy Text:\<newline>'' @
     js ''  ''\<close>

definition extractPromptTail :: jsstring where
  \<open>extractPromptTail =
     js ''\<newline>'' @
     js ''  \<newline>'' @
     js ''  Return a JSON object with:\<newline>'' @
     js ''  - visualStyle: A detailed prompt describing the visual aesthetic (lighting, color palette, mood) suitable for an image generator.\<newline>'' @
     js ''  - videoConcept: A specific, cinematic video scene description suitable for a video generation model (e.g. "Drone shot of...").\<newline>'' @
     js ''  - socialHooks: An array of 3 short, punchy social media headlines/hooks.\<newline>'' @
     js ''  - targetAudience: A 1-sentence summary of the target audience.\<newline>'' @
     js ''  ''\<close>

definition extractPrompt :: "jsstring \<Rightarrow> jsstring" where
  "extractPrompt strategyText =
     extractPromptHead @ substring 0 5000 strategyText @ extractPromptTail"

definition campaignSchema :: schema where
  "campaignSchema =
     TypeObject
       [(js ''visualStyle'', TypeString),
        (js ''videoConcept'', TypeString),
        (js ''socialHooks'', TypeArray TypeString),
        (js ''targetAudience'', TypeString)]"

definition extractRequest :: "jsstring \<Rightarrow> generateContentParameters" where
  "extractRequest strategyText =
     \<lparr>contentModel = js ''gemini-2.5-flash'',
      contents = Prompt (extractPrompt strategyText),
      contentConfig =
        noConfig\<lparr>responseMimeType := Some (js ''application/json''),
                 responseSchema := Some campaignSchema\<rparr>\<rparr>"

text \<open>
  The argument is \<open>undefined\<close> when the strategy response had no text; \<open>substring\<close> on it
  is a \<open>TypeError\<close>. What \<open>JSON.parse\<close> returns is returned as it is.
\<close>

definition extractCampaignDetails :: "world \<Rightarrow> jsstring option \<Rightarrow> error + json" where
  "extractCampaignDetails w strategyText =
     (case strategyText of
        None \<Rightarrow> Inl TypeError
      | Some t \<Rightarrow>
          (case generateContent w (extractRequest t) of
             Inl e \<Rightarrow> Inl e
           | Inr r \<Rightarrow> JSON_parse (tpl (responseText r))))"

definition groundingUrl :: "groundingChunk \<Rightarrow> (jsstring option \<times> jsstring option) option" where
  "groundingUrl c = (case web c of None \<Rightarrow> None | Some x \<Rightarrow> Some (webTitle x, webUri x))"

definition researchTrends ::
  "world \<Rightarrow> jsstring \<Rightarrow> error + (jsstring option \<times> (jsstring option \<times> jsstring option) list)" where
  \<open>researchTrends w topic =
     (case generateContent w
             \<lparr>contentModel = js ''gemini-2.5-flash'',
              contents =
                Prompt (js ''Find the latest trending news, memes, or discussions related to: "'' @
                        topic @
                        js ''". Provide a summary and list specific links to sources.''),
              contentConfig = noConfig\<lparr>tools := Some [GoogleSearch]\<rparr>\<rparr> of
        Inl e \<Rightarrow> Inl e
      | Inr r \<Rightarrow>
          (let chunks =
                 (case candidates r of
                    None \<Rightarrow> []
                  | Some cs \<Rightarrow>
                      (case cs of
                         [] \<Rightarrow> []
                       | c # _ \<Rightarrow>
                           (case groundingMetadata c of
                              None \<Rightarrow> []
                            | Some g \<Rightarrow>
                                (case groundingChunks g of None \<Rightarrow> [] | Some xs \<Rightarrow> xs))))
           in Inr (responseText r, List.map_filter groundingUrl chunks)))\<close>

text \<open>\<open>response.candidates?.[0]?.content?.parts || []\<close>\<close>

definition responseParts :: "generateContentResponse \<Rightarrow> part list" where
  "responseParts r =
     (case candidates r of
        None \<Rightarrow> []
      | Some cs \<Rightarrow>
          (case cs of
             [] \<Rightarrow> []
           | c # _ \<Rightarrow>
               (case content c of
                  None \<Rightarrow> []
                | Some ct \<Rightarrow> (case parts ct of None \<Rightarrow> [] | Some ps \<Rightarrow> ps))))"

text \<open>
  The loop over the parts that both image functions end with: the data URI of the first
  part that has inline data, or the error with message \<open>msg\<close> when the loop runs out.
\<close>

fun firstInlineImage :: "jsstring \<Rightarrow> part list \<Rightarrow> error + jsstring" where
  "firstInlineImage msg [] = Inl (Error msg)"
| "firstInlineImage msg (p # ps) =
     (case inlineData p of
        Some b \<Rightarrow> Inr (js ''data:image/png;base64,'' @ tpl (data b))
      | None \<Rightarrow> firstInlineImage msg ps)"

definition proImageRequest :: "jsstring \<Rightarrow> AspectRatio \<Rightarrow> ImageSize \<Rightarrow> generateContentParameters" where
  "proImageRequest p ar size' =
     \<lparr>contentModel = js ''gemini-3-pro-image-preview'',
      contents = Parts [\<lparr>partText = Some p, inlineData = None\<rparr>],
      contentConfig =
        noConfig\<lparr>imageConfig := Some \<lparr>imageAspectRatio = ar, imageSize = size'\<rparr>\<rparr>\<rparr>"

definition generateProImage ::
  "world \<Rightarrow> jsstring \<Rightarrow> AspectRatio \<Rightarrow> ImageSize \<Rightarrow> error + jsstring" where
  "generateProImage w p ar size' =
     (case ensurePaidApiKey w of
        Inl e \<Rightarrow> Inl e
      | Inr _ \<Rightarrow>
          (case generateContent w (proImageRequest p ar size') of
             Inl e \<Rightarrow> Inl e
           | Inr r \<Rightarrow> firstInlineImage (js ''No image generated'') (responseParts r)))"

definition editImageRequest :: "jsstring option \<Rightarrow> jsstring \<Rightarrow> generateContentParameters" where
  "editImageRequest base64Image p =
     \<lparr>contentModel = js ''gemini-2.5-flash-image'',
      contents =
        Parts [\<lparr>partText = None,
                inlineData = Some \<lparr>blobMimeType = Some (js ''image/png''), data = base64Image\<rparr>\<rparr>,
               \<lparr>partText = Some p, inlineData = None\<rparr>],
      contentConfig = noConfig\<rparr>"

definition editImageWithFlash :: "world \<Rightarrow> jsstring option \<Rightarrow> jsstring \<Rightarrow> error + jsstring" where
  "editImageWithFlash w base64Image p =
     (case generateContent w (editImageRequest base64Image p) of
        Inl e \<Rightarrow> Inl e
      | Inr r \<Rightarrow> firstInlineImage (js ''No edited image returned'') (responseParts r))"

section \<open>The screens\<close>

subsection \<open>The strategy screen and the campaign store\<close>

datatype strategyMode = StrategyMode | ResearchMode

text \<open>
  The state the handler of the strategy screen reads and writes: the fields of the
  screen, the campaign slot of the application (\<open>null\<close> is \<open>None\<close>; a campaign is the
  object that was stored, whatever its properties), what was written by
  \<open>console.error\<close>, and the alerts shown.
\<close>

record strategyScreen =
  brandNameField :: jsstring
  goals :: jsstring
  strategyMode :: strategyMode
  loading :: bool
  extracting :: bool
  outputText :: jsstring
  researchUrls :: "(jsstring option \<times> jsstring option) list"
  campaign :: "(jsstring \<times> json) list option"
  console :: "(jsstring \<times> error) list"
  alerts :: "jsstring list"

text \<open>\<open>onActivateCampaign({ ...details, brandName })\<close>\<close>

definition activate :: "json \<Rightarrow> jsstring \<Rightarrow> (jsstring \<times> json) list" where
  "activate details brand = AList.update (js ''brandName'') (JString brand) (spread details)"

definition handleRun :: "world \<Rightarrow> strategyScreen \<Rightarrow> strategyScreen" where
  "handleRun w st =
     (if brandNameField st = [] then st
      else
        let st1 = st\<lparr>loading := True, outputText := [], researchUrls := []\<rparr>
        in (case strategyMode st of
              StrategyMode \<Rightarrow>
                (case generateStrategy w (brandNameField st) (goals st) of
                   Inl e \<Rightarrow> st1\<lparr>outputText := js ''Error: '' @ message w e, loading := False\<rparr>
                 | Inr result \<Rightarrow>
                     let st2 =
                           st1\<lparr>outputText :=
                                 (if truthy result then tpl result
                                  else js ''No strategy generated.''),
                               extracting := True\<rparr>;
                         st3 =
                           (case extractCampaignDetails w result of
                              Inr details \<Rightarrow>
                                st2\<lparr>campaign := Some (activate details (brandNameField st))\<rparr>
                            | Inl e \<Rightarrow>
                                st2\<lparr>console :=
                                      console st2 @
                                      [(js ''Failed to extract campaign details'', e)]\<rparr>)
                     in st3\<lparr>extracting := False, loading := False\<rparr>)
            | ResearchMode \<Rightarrow>
                (case researchTrends w (brandNameField st) of
                   Inl e \<Rightarrow> st1\<lparr>outputText := js ''Error: '' @ message w e, loading := False\<rparr>
                 | Inr (txt, urls) \<Rightarrow>
                     st1\<lparr>outputText := (if truthy txt then tpl txt else js ''No trends found.''),
                         researchUrls := urls, loading := False\<rparr>)))"

text \<open>
  The campaign as the consumer screens are typed to receive it, and the reading of a
  stored object as one: the five properties, each of its declared type.
\<close>

record ActiveCampaign =
  brandName :: jsstring
  visualStyle :: jsstring
  videoConcept :: jsstring
  socialHooks :: "jsstring list"
  targetAudience :: jsstring

fun strings :: "json list \<Rightarrow> jsstring list option" where
  "strings [] = Some []"
| "strings (JString s # vs) = (case strings vs of None \<Rightarrow> None | Some ss \<Rightarrow> Some (s # ss))"
| "strings (_ # vs) = None"

definition stringField :: "(jsstring \<times> json) list \<Rightarrow> jsstring \<Rightarrow> jsstring option" where
  "stringField kvs k = (case map_of kvs k of Some (JString s) \<Rightarrow> Some s | _ \<Rightarrow> None)"

definition stringsField :: "(jsstring \<times> json) list \<Rightarrow> jsstring \<Rightarrow> jsstring list option" where
  "stringsField kvs k = (case map_of kvs k of Some (JArray vs) \<Rightarrow> strings vs | _ \<Rightarrow> None)"

definition asActiveCampaign :: "(jsstring \<times> json) list \<Rightarrow> ActiveCampaign option" where
  "asActiveCampaign kvs =
     (case (stringField kvs (js ''brandName''), stringField kvs (js ''visualStyle''),
            stringField kvs (js ''videoConcept''), stringsField kvs (js ''socialHooks''),
            stringField kvs (js ''targetAudience'')) of
        (Some b, Some v, Some c, Some h, Some t) \<Rightarrow>
          Some \<lparr>brandName = b, visualStyle = v, videoConcept = c, socialHooks = h,
                targetAudience = t\<rparr>
      | _ \<Rightarrow> None)"

text \<open>
  The requested shape of the extraction payload: an object whose four properties
  \<open>visualStyle\<close>, \<open>videoConcept\<close>, \<open>socialHooks\<close> and \<open>targetAudience\<close> are present, three
  strings and an array of strings.
\<close>

definition requestedShape :: "json \<Rightarrow> bool" where
  "requestedShape v =
     (case v of
        JObject kvs \<Rightarrow>
          stringField kvs (js ''visualStyle'') \<noteq> None
          \<and> stringField kvs (js ''videoConcept'') \<noteq> None
          \<and> stringsField kvs (js ''socialHooks'') \<noteq> None
          \<and> stringField kvs (js ''targetAudience'') \<noteq> None
      | _ \<Rightarrow> False)"

subsection \<open>The consumer screens: auto-fill\<close>

datatype imageTab = GenerateTab | RemixTab | AnalyzeTab

record imageStudio =
  activeTab :: imageTab
  genPrompt :: jsstring
  remixSource :: "jsstring option"
  remixPrompt :: jsstring

text \<open>
  The effect of the Image Studio, run on mount and when the campaign or the tab changes.
\<close>

definition imageStudioEffect :: "ActiveCampaign option \<Rightarrow> imageStudio \<Rightarrow> imageStudio" where
  "imageStudioEffect activeCampaign st =
     (case activeCampaign of
        None \<Rightarrow> st
      | Some c \<Rightarrow>
          if activeTab st = GenerateTab \<and> genPrompt st = [] then
            st\<lparr>genPrompt :=
                 js ''Create a high-quality marketing image for '' @ brandName c @
                 js ''. '' @ visualStyle c\<rparr>
          else st)"

record videoLab =
  prompt :: jsstring
  sourceImage :: "jsstring option"

text \<open>The effect of the Video Lab, run on mount and when the campaign changes.\<close>

definition videoLabEffect :: "ActiveCampaign option \<Rightarrow> videoLab \<Rightarrow> videoLab" where
  "videoLabEffect activeCampaign st =
     (case activeCampaign of
        None \<Rightarrow> st
      | Some c \<Rightarrow> if prompt st = [] then st\<lparr>prompt := videoConcept c\<rparr> else st)"

subsection \<open>Local image files\<close>

text \<open>
  The data URI that reading a file gives: \<open>data:\<close>, the media type of the file,
  \<open>;base64,\<close>, the content of the file in base64.
\<close>

definition dataUrl :: "jsstring \<Rightarrow> jsstring \<Rightarrow> jsstring" where
  "dataUrl mime payload = js ''data:'' @ mime @ js '';base64,'' @ payload"

text \<open>The characters of base64: letters, digits, \<open>+\<close>, \<open>/\<close> and the padding \<open>=\<close>.\<close>

definition isBase64Char :: "16 word \<Rightarrow> bool" where
  "isBase64Char c =
     ((0x41 \<le> c \<and> c \<le> 0x5A) \<or> (0x61 \<le> c \<and> c \<le> 0x7A) \<or> (0x30 \<le> c \<and> c \<le> 0x39)
      \<or> c = 0x2B \<or> c = 0x2F \<or> c = 0x3D)"

text \<open>\<open>source.split(',')[1]\<close>, as the remix, analyze and animate handlers compute it.\<close>

definition base64Data :: "jsstring \<Rightarrow> jsstring option" where
  "base64Data source = at (jsSplit 0x2C source) 1"

text \<open>The request that the remix handler has \<open>editImageWithFlash\<close> send for a source.\<close>

definition remixRequest :: "jsstring \<Rightarrow> jsstring \<Rightarrow> generateContentParameters" where
  "remixRequest source p = editImageRequest (base64Data source) p"

section \<open>Runs of the video functions\<close>

text \<open>
  A run of either function, as the Video Lab screen starts one from its active tab; the
  request it submits and the message of its failure.
\<close>

datatype videoRun =
  TextToVideo jsstring videoAspectRatio
| ImageToVideo "jsstring option" "jsstring option" videoAspectRatio

definition runParams :: "videoRun \<Rightarrow> generateVideosParameters" where
  "runParams run =
     (case run of
        TextToVideo p ar \<Rightarrow> textToVideoParams p ar
      | ImageToVideo base64Image p ar \<Rightarrow> imageToVideoParams base64Image p ar)"

definition runFailureMessage :: "videoRun \<Rightarrow> jsstring" where
  "runFailureMessage run =
     (case run of
        TextToVideo p ar \<Rightarrow> js ''Video generation failed''
      | ImageToVideo base64Image p ar \<Rightarrow> js ''Video animation failed'')"

definition runVideo :: "world \<Rightarrow> videoRun \<Rightarrow> (event list \<times> (error + jsstring)) option" where
  "runVideo w run =
     (case run of
        TextToVideo p ar \<Rightarrow> generateVideoFromPrompt w p ar
      | ImageToVideo base64Image p ar \<Rightarrow> animateImageWithVeo w base64Image p ar)"

text \<open>The submission of a run went through and returned the operation handle \<open>operation\<close>.\<close>

definition submitted :: "world \<Rightarrow> videoRun \<Rightarrow> operation \<Rightarrow> bool" where
  "submitted w run operation =
     ((case ensurePaidApiKey w of Inl e \<Rightarrow> False | Inr b \<Rightarrow> True)
      \<and> generateVideos w (runParams run) = Inr operation)"

text \<open>The remote job never completes: every re-query is answered, with an operation not done.\<close>

definition neverDone :: "(event list \<Rightarrow> operation \<Rightarrow> error + operation) \<Rightarrow> bool" where
  "neverDone getOp =
     (\<forall>tr operation.
        case getOp tr operation of
          Inl e \<Rightarrow> False
        | Inr operation' \<Rightarrow> \<not> truthyFlag (isDone operation'))"

text \<open>The trace of \<open>k\<close> iterations of the loop body: \<open>k\<close> times a 5000 ms timer, then a re-query.\<close>

definition pollTrace :: "nat \<Rightarrow> event list" where
  "pollTrace k = concat (replicate k [SetTimeout 5000, GetVideosOperation])"

text \<open>
  The statuses of a run, one after the other: the operation that the loop holds after \<open>k\<close>
  re-queries when it goes on that far, starting from the trace \<open>tr\<close> with \<open>operation\<close>, or
  the error of the first re-query that threw. The done flags play no part in it.
\<close>

fun statusAfter ::
  "(event list \<Rightarrow> operation \<Rightarrow> error + operation) \<Rightarrow> event list \<Rightarrow> operation \<Rightarrow> nat
     \<Rightarrow> error + operation" where
  "statusAfter getOp tr operation 0 = Inr operation"
| "statusAfter getOp tr operation (Suc k) =
     (case getOp tr operation of
        Inl e \<Rightarrow> Inl e
      | Inr operation' \<Rightarrow>
          statusAfter getOp (tr @ [SetTimeout 5000, GetVideosOperation]) operation' k)"

text \<open>The first \<open>n\<close> statuses, the submitted operation included, are not done.\<close>

definition pendingFrom ::
  "(event list \<Rightarrow> operation \<Rightarrow> error + operation) \<Rightarrow> event list \<Rightarrow> operation \<Rightarrow> nat \<Rightarrow> bool" where
  "pendingFrom getOp tr operation n =
     (\<forall>j<n. case statusAfter getOp tr operation j of
               Inl e \<Rightarrow> False
             | Inr operation' \<Rightarrow> \<not> truthyFlag (isDone operation'))"

section \<open>Test doubles\<close>

text \<open>
  A pending operation, a completed one with a given link, and a gateway that answers the
  submission with \<open>first\<close>, the re-queries from the list \<open>answers\<close> and then with \<open>final\<close>,
  and every content request with the text \<open>payload\<close>.
\<close>

definition pendingOperation :: operation where
  "pendingOperation = \<lparr>isDone = Some False, response = None\<rparr>"

definition completedOperation :: "jsstring option \<Rightarrow> operation" where
  "completedOperation u =
     \<lparr>isDone = Some True,
      response = Some \<lparr>generatedVideos = Some [\<lparr>video = Some \<lparr>uri = u\<rparr>\<rparr>]\<rparr>\<rparr>"

definition textResponse :: "jsstring \<Rightarrow> generateContentResponse" where
  "textResponse payload = \<lparr>responseText = Some payload, candidates = None\<rparr>"

definition partsResponse :: "part list \<Rightarrow> generateContentResponse" where
  "partsResponse ps =
     \<lparr>responseText = None,
      candidates = Some [\<lparr>content = Some \<lparr>parts = Some ps\<rparr>, groundingMetadata = None\<rparr>]\<rparr>"

definition mockWorld ::
  "generateContentResponse \<Rightarrow> operation \<Rightarrow> operation list \<Rightarrow> operation \<Rightarrow> world" where
  "mockWorld r first answers final =
     \<lparr>API_KEY = Some (js ''K''),
      windowAistudio = None,
      generateContent = (\<lambda>params. Inr r),
      generateVideos = (\<lambda>params. Inr first),
      getVideosOperation =
        (\<lambda>tr operation.
           if length tr div 2 < length answers then Inr (answers ! (length tr div 2))
           else Inr final),
      engineMessage = (\<lambda>e. [])\<rparr>"

text \<open>
  A gateway that answers one content request, with the text \<open>payload\<close>, and rejects every
  other request.
\<close>

definition onlyAnswering :: "generateContentParameters \<Rightarrow> jsstring \<Rightarrow> world" where
  "onlyAnswering expected payload =
     \<lparr>API_KEY = Some (js ''K''),
      windowAistudio = None,
      generateContent =
        (\<lambda>params. if params = expected then Inr (textResponse payload)
                  else Inl (Error (js ''unexpected request''))),
      generateVideos = (\<lambda>params. Inl (Error (js ''unexpected request''))),
      getVideosOperation = (\<lambda>tr operation. Inl (Error (js ''unexpected request''))),
      engineMessage = (\<lambda>e. [])\<rparr>"

text \<open>A strategy screen with the brand name and the goals typed in, nothing run yet.\<close>

definition freshScreen :: "jsstring \<Rightarrow> jsstring \<Rightarrow> strategyScreen" where
  "freshScreen brand goals' =
     \<lparr>brandNameField = brand, goals = goals', strategyMode = StrategyMode, loading = False,
      extracting = False, outputText = [], researchUrls = [], campaign = None, console = [],
      alerts = []\<rparr>"

text \<open>A part with text only, a part with an inline image, a payload of the requested shape
  with the value it denotes, and a campaign.\<close>

definition textPart :: "jsstring \<Rightarrow> part" where
  "textPart s = \<lparr>partText = Some s, inlineData = None\<rparr>"

definition imagePart :: "jsstring \<Rightarrow> part" where
  "imagePart d =
     \<lparr>partText = None,
      inlineData = Some \<lparr>blobMimeType = Some (js ''image/jpeg''), data = Some d\<rparr>\<rparr>"

definition samplePayload :: jsstring where
  \<open>samplePayload =
     js ''{"visualStyle":"neon noir","videoConcept":"Drone shot of a city",'' @
     js ''"socialHooks":["Run faster","Go greener","Own the street"],'' @
     js ''"targetAudience":"Gen Z runners"}''\<close>

definition sampleDetails :: json where
  "sampleDetails =
     JObject
       [(js ''visualStyle'', JString (js ''neon noir'')),
        (js ''videoConcept'', JString (js ''Drone shot of a city'')),
        (js ''socialHooks'',
         JArray [JString (js ''Run faster''), JString (js ''Go greener''),
                 JString (js ''Own the street'')]),
        (js ''targetAudience'', JString (js ''Gen Z runners''))]"

definition sampleCampaign :: ActiveCampaign where
  "sampleCampaign =
     \<lparr>brandName = js ''Acme'', visualStyle = js ''neon noir'',
      videoConcept = js ''Drone shot of a city'',
      socialHooks = [js ''Run faster'', js ''Go greener'', js ''Own the street''],
      targetAudience = js ''Gen Z runners''\<rparr>"

section \<open>Verification\<close>

subsection \<open>The job poller\<close>

lemma pollTrace_Suc: "pollTrace (Suc k) = [SetTimeout 5000, GetVideosOperation] @ pollTrace k"
  by (simp add: pollTrace_def)

lemma pollTrace_0: "pollTrace 0 = []"
  by (simp add: pollTrace_def)

lemma pollLoop_trace_aux:
  assumes "pollLoop q tr0 operation = Some y"
  shows "\<exists>k. fst y = tr0 @ pollTrace k"
proof (rule pollLoop.raw_induct
    [where P = "\<lambda>q tr0 operation y. \<exists>k. fst y = tr0 @ pollTrace k", OF _ assms], goal_cases)
  case (1 f getOp tr0 operation y)
  show ?case
  proof (cases "truthyFlag (isDone operation)")
    case True
    with 1(2) have "fst y = tr0 @ pollTrace 0" by (auto simp: pollTrace_0)
    then show ?thesis by blast
  next
    case False
    show ?thesis
    proof (cases "getOp tr0 operation")
      case (Inl e)
      with False 1(2) have "fst y = tr0 @ pollTrace (Suc 0)"
        by (auto simp: pollTrace_Suc pollTrace_0)
      then show ?thesis by blast
    next
      case (Inr operation')
      with False 1(2)
      have "f getOp (tr0 @ [SetTimeout 5000, GetVideosOperation]) operation' = Some y"
        by simp
      from 1(1)[OF this] obtain k
        where "fst y = (tr0 @ [SetTimeout 5000, GetVideosOperation]) @ pollTrace k" by blast
      then have "fst y = tr0 @ pollTrace (Suc k)" by (simp add: pollTrace_Suc)
      then show ?thesis by blast
    qed
  qed
qed

lemma pollLoop_trace:
  "pollLoop q tr0 operation = Some (tr, r) \<Longrightarrow> \<exists>k. tr = tr0 @ pollTrace k"
  using pollLoop_trace_aux [of q tr0 operation "(tr, r)"] by simp

lemma pollSteps_sound:
  "pollSteps q n tr operation = (tr', Some r) \<Longrightarrow> pollLoop q tr operation = Some (tr', r)"
proof (induction n arbitrary: tr operation)
  case 0
  then show ?case
    by (subst pollLoop.simps) (simp split: if_splits)
next
  case (Suc n)
  show ?case
  proof (cases "truthyFlag (isDone operation)")
    case True
    with Suc.prems show ?thesis by (subst pollLoop.simps) simp
  next
    case False
    show ?thesis
    proof (cases "q tr operation")
      case (Inl e)
      with False Suc.prems have "tr' = tr @ [SetTimeout 5000, GetVideosOperation]" "r = Inl e"
        by simp_all
      with False Inl show ?thesis by (subst pollLoop.simps) simp
    next
      case (Inr operation')
      with False Suc.prems
      have "pollSteps q n (tr @ [SetTimeout 5000, GetVideosOperation]) operation' = (tr', Some r)"
        by simp
      from Suc.IH[OF this] False Inr show ?thesis
        by (subst pollLoop.simps) simp
    qed
  qed
qed

lemma pollLoop_complete_aux:
  assumes "pollLoop q tr operation = Some y"
  shows "\<exists>n. pollSteps q n tr operation = (fst y, Some (snd y))"
proof (rule pollLoop.raw_induct
    [where P = "\<lambda>q tr operation y. \<exists>n. pollSteps q n tr operation = (fst y, Some (snd y))",
     OF _ assms], goal_cases)
  case (1 f getOp tr operation y)
  show ?case
  proof (cases "truthyFlag (isDone operation)")
    case True
    with 1(2) have "y = (tr, Inr operation)" by simp
    with True have "pollSteps getOp 0 tr operation = (fst y, Some (snd y))" by simp
    then show ?thesis by blast
  next
    case False
    show ?thesis
    proof (cases "getOp tr operation")
      case (Inl e)
      with False 1(2) have "y = (tr @ [SetTimeout 5000, GetVideosOperation], Inl e)" by simp
      with False Inl have "pollSteps getOp (Suc 0) tr operation = (fst y, Some (snd y))" by simp
      then show ?thesis by blast
    next
      case (Inr operation')
      with False 1(2)
      have "f getOp (tr @ [SetTimeout 5000, GetVideosOperation]) operation' = Some y"
        by simp
      from 1(1)[OF this] obtain n
        where "pollSteps getOp n (tr @ [SetTimeout 5000, GetVideosOperation]) operation'
                 = (fst y, Some (snd y))" by blast
      with False Inr have "pollSteps getOp (Suc n) tr operation = (fst y, Some (snd y))" by simp
      then show ?thesis by blast
    qed
  qed
qed

lemma pollLoop_complete:
  "pollLoop q tr operation = Some (tr', r) \<Longrightarrow> \<exists>n. pollSteps q n tr operation = (tr', Some r)"
  using pollLoop_complete_aux [of q tr operation "(tr', r)"] by simp

lemma pollSteps_neverDone:
  "neverDone q \<Longrightarrow> \<not> truthyFlag (isDone operation) \<Longrightarrow> pollSteps q n tr operation = (tr @ pollTrace n, None)"
proof (induction n arbitrary: tr operation)
  case 0
  then show ?case by (simp add: pollTrace_0)
next
  case (Suc n)
  from Suc.prems(1) obtain operation' where q: "q tr operation = Inr operation'"
    and nd: "\<not> truthyFlag (isDone operation')"
    unfolding neverDone_def by (metis (mono_tags, lifting) sum.case_eq_if sum.collapse(2))
  from Suc.IH[OF Suc.prems(1) nd] q Suc.prems(2) show ?case
    by (simp add: pollTrace_Suc)
qed

lemma pollLoop_neverDone:
  assumes "neverDone q" "\<not> truthyFlag (isDone operation)"
  shows "pollLoop q tr operation = None"
proof (cases "pollLoop q tr operation")
  case None then show ?thesis .
next
  case (Some y)
  obtain tr' r where "y = (tr', r)" by (cases y)
  with Some pollLoop_complete obtain n where "pollSteps q n tr operation = (tr', Some r)" by blast
  with pollSteps_neverDone[OF assms] show ?thesis by simp
qed

lemma runVideo_unfold:
  "runVideo w run =
     (case ensurePaidApiKey w of
        Inl e \<Rightarrow> Some ([], Inl e)
      | Inr b \<Rightarrow>
          (case generateVideos w (runParams run) of
             Inl e \<Rightarrow> Some ([], Inl e)
           | Inr operation \<Rightarrow> awaitVideo w (runFailureMessage run) operation))"
  by (cases run)
     (simp_all add: runVideo_def runParams_def runFailureMessage_def
        generateVideoFromPrompt_def animateImageWithVeo_def split: sum.splits)

lemma runVideo_submitted:
  "submitted w run operation \<Longrightarrow> runVideo w run = awaitVideo w (runFailureMessage run) operation"
  by (simp add: runVideo_unfold submitted_def split: sum.splits)

lemma awaitVideo_trace:
  "awaitVideo w msg operation = Some (tr, r) \<Longrightarrow> \<exists>k. tr = pollTrace k"
  using pollLoop_trace [of "getVideosOperation w" "[]" operation tr]
  by (auto simp: awaitVideo_def split: option.splits sum.splits if_splits)

lemma runVideo_trace:
  "runVideo w run = Some (tr, r) \<Longrightarrow> \<exists>k. tr = pollTrace k"
  using awaitVideo_trace [of w "runFailureMessage run" _ tr r]
  by (auto simp: runVideo_unfold split: sum.splits intro: exI [of _ 0] simp: pollTrace_0)

lemma awaitVideo_completed:
  "pollLoop (getVideosOperation w) [] operation = Some (tr, Inr operation') \<Longrightarrow>
   awaitVideo w msg operation =
     Some (tr, if truthy (downloadLink operation')
               then Inr (tpl (downloadLink operation') @ js ''&key='' @ tpl (API_KEY w))
               else Inl (Error msg))"
  by (simp add: awaitVideo_def)

lemma pollLoop_done:
  "truthyFlag (isDone operation) \<Longrightarrow> pollLoop q tr operation = Some (tr, Inr operation)"
  by (subst pollLoop.simps) simp

lemma pollLoop_step:
  "\<not> truthyFlag (isDone operation) \<Longrightarrow> q tr operation = Inr operation' \<Longrightarrow>
   pollLoop q tr operation = pollLoop q (tr @ [SetTimeout 5000, GetVideosOperation]) operation'"
  by (subst pollLoop.simps) simp

lemma pendingFrom_0: "pendingFrom q tr operation 0"
  by (simp add: pendingFrom_def)

lemma pendingFrom_Suc:
  "pendingFrom q tr operation (Suc n) \<longleftrightarrow>
     \<not> truthyFlag (isDone operation)
     \<and> (n = 0 \<or> (\<exists>operation'. q tr operation = Inr operation'
            \<and> pendingFrom q (tr @ [SetTimeout 5000, GetVideosOperation]) operation' n))"
proof (cases n)
  case 0
  then show ?thesis by (simp add: pendingFrom_def)
next
  case (Suc m)
  show ?thesis
  proof
    assume p: "pendingFrom q tr operation (Suc n)"
    then have a: "\<not> truthyFlag (isDone operation)"
      unfolding pendingFrom_def by (drule_tac x = 0 in spec) simp
    from p Suc obtain operation' where b: "q tr operation = Inr operation'"
      unfolding pendingFrom_def by (drule_tac x = 1 in spec) (auto split: sum.splits)
    have "pendingFrom q (tr @ [SetTimeout 5000, GetVideosOperation]) operation' n"
      unfolding pendingFrom_def
    proof (intro allI impI)
      fix j assume "j < n"
      with p have "case statusAfter q tr operation (Suc j) of Inl e \<Rightarrow> False
          | Inr operation' \<Rightarrow> \<not> truthyFlag (isDone operation')"
        unfolding pendingFrom_def by (drule_tac x = "Suc j" in spec) simp
      with b show "case statusAfter q (tr @ [SetTimeout 5000, GetVideosOperation]) operation' j of
          Inl e \<Rightarrow> False | Inr operation' \<Rightarrow> \<not> truthyFlag (isDone operation')"
        by simp
    qed
    with a b show "\<not> truthyFlag (isDone operation)
     \<and> (n = 0 \<or> (\<exists>operation'. q tr operation = Inr operation'
            \<and> pendingFrom q (tr @ [SetTimeout 5000, GetVideosOperation]) operation' n))"
      by blast
  next
    assume h: "\<not> truthyFlag (isDone operation)
     \<and> (n = 0 \<or> (\<exists>operation'. q tr operation = Inr operation'
            \<and> pendingFrom q (tr @ [SetTimeout 5000, GetVideosOperation]) operation' n))"
    with Suc obtain operation' where b: "q tr operation = Inr operation'"
      and c: "pendingFrom q (tr @ [SetTimeout 5000, GetVideosOperation]) operation' n"
      by auto
    show "pendingFrom q tr operation (Suc n)"
      unfolding pendingFrom_def
    proof (intro allI impI)
      fix j assume j: "j < Suc n"
      show "case statusAfter q tr operation j of Inl e \<Rightarrow> False
          | Inr operation' \<Rightarrow> \<not> truthyFlag (isDone operation')"
      proof (cases j)
        case 0
        with h show ?thesis by simp
      next
        case (Suc i)
        with j have "i < n" by simp
        with c have "case statusAfter q (tr @ [SetTimeout 5000, GetVideosOperation]) operation' i of
            Inl e \<Rightarrow> False | Inr operation' \<Rightarrow> \<not> truthyFlag (isDone operation')"
          unfolding pendingFrom_def by simp
        with b Suc show ?thesis by simp
      qed
    qed
  qed
qed


lemma pollLoop_throw:
  "\<not> truthyFlag (isDone operation) \<Longrightarrow> q tr operation = Inl e \<Longrightarrow>
   pollLoop q tr operation = Some (tr @ [SetTimeout 5000, GetVideosOperation], Inl e)"
  by (subst pollLoop.simps) simp

lemma pollLoop_after_pending:
  "pendingFrom q tr operation n \<Longrightarrow> statusAfter q tr operation n = Inr opn \<Longrightarrow>
   truthyFlag (isDone opn) \<Longrightarrow>
   pollLoop q tr operation = Some (tr @ pollTrace n, Inr opn)"
proof (induction n arbitrary: tr operation)
  case 0
  then show ?case by (simp add: pollLoop_done pollTrace_0)
next
  case (Suc n)
  let ?tr = "tr @ [SetTimeout 5000, GetVideosOperation]"
  from Suc.prems(1) have nd: "\<not> truthyFlag (isDone operation)"
    by (simp add: pendingFrom_Suc)
  from Suc.prems(2) obtain operation' where q: "q tr operation = Inr operation'"
    and s: "statusAfter q ?tr operation' n = Inr opn"
    by (auto split: sum.splits)
  from Suc.prems(1) q have p: "pendingFrom q ?tr operation' n"
    by (auto simp: pendingFrom_Suc pendingFrom_0)
  from Suc.IH [OF p s Suc.prems(3)] pollLoop_step [of operation q tr operation'] nd q
  show ?case
    by (simp add: pollTrace_Suc)
qed

lemma pollLoop_throws_after_pending:
  "pendingFrom q tr operation (Suc n) \<Longrightarrow> statusAfter q tr operation (Suc n) = Inl e \<Longrightarrow>
   pollLoop q tr operation = Some (tr @ pollTrace (Suc n), Inl e)"
proof (induction n arbitrary: tr operation)
  case 0
  from 0(1) have nd: "\<not> truthyFlag (isDone operation)"
    by (simp add: pendingFrom_Suc)
  from 0(2) have "q tr operation = Inl e"
    by (auto split: sum.splits)
  with nd pollLoop_throw [of operation q tr e] show ?case
    by (simp add: pollTrace_Suc pollTrace_0)
next
  case (Suc n)
  let ?tr = "tr @ [SetTimeout 5000, GetVideosOperation]"
  from Suc.prems(1) have nd: "\<not> truthyFlag (isDone operation)"
    by (simp add: pendingFrom_Suc)
  from Suc.prems(1) obtain operation' where q: "q tr operation = Inr operation'"
    and p: "pendingFrom q ?tr operation' (Suc n)"
    by (subst (asm) pendingFrom_Suc) auto
  from Suc.prems(2) q have s: "statusAfter q ?tr operation' (Suc n) = Inl e"
    by simp
  from Suc.IH [OF p s] pollLoop_step [of operation q tr operation'] nd q show ?case
    by (simp add: pollTrace_Suc [of "Suc n"])
qed

lemma pollLoop_returned_aux:
  assumes "pollLoop q tr operation = Some y"
  shows "\<exists>n. fst y = tr @ pollTrace n \<and> pendingFrom q tr operation n
      \<and> (case statusAfter q tr operation n of
            Inl e \<Rightarrow> snd y = Inl e
          | Inr opn \<Rightarrow> truthyFlag (isDone opn) \<and> snd y = Inr opn)"
proof (rule pollLoop.raw_induct
    [where P = "\<lambda>q tr operation y.
        \<exists>n. fst y = tr @ pollTrace n \<and> pendingFrom q tr operation n
          \<and> (case statusAfter q tr operation n of
                Inl e \<Rightarrow> snd y = Inl e
              | Inr opn \<Rightarrow> truthyFlag (isDone opn) \<and> snd y = Inr opn)",
     OF _ assms], goal_cases)
  case (1 f getOp tr operation y)
  let ?tr = "tr @ [SetTimeout 5000, GetVideosOperation]"
  show ?case
  proof (cases "truthyFlag (isDone operation)")
    case True
    with 1(2) have "y = (tr, Inr operation)" by simp
    with True have "fst y = tr @ pollTrace 0 \<and> pendingFrom getOp tr operation 0
        \<and> (case statusAfter getOp tr operation 0 of
              Inl e \<Rightarrow> snd y = Inl e
            | Inr opn \<Rightarrow> truthyFlag (isDone opn) \<and> snd y = Inr opn)"
      by (simp add: pollTrace_0 pendingFrom_0)
    then show ?thesis by blast
  next
    case False
    show ?thesis
    proof (cases "getOp tr operation")
      case (Inl e)
      with False 1(2) have "y = (?tr, Inl e)" by simp
      with False Inl have "fst y = tr @ pollTrace (Suc 0) \<and> pendingFrom getOp tr operation (Suc 0)
        \<and> (case statusAfter getOp tr operation (Suc 0) of
              Inl e \<Rightarrow> snd y = Inl e
            | Inr opn \<Rightarrow> truthyFlag (isDone opn) \<and> snd y = Inr opn)"
        by (simp add: pollTrace_Suc pollTrace_0 pendingFrom_Suc)
      then show ?thesis by blast
    next
      case (Inr operation')
      with False 1(2) have "f getOp ?tr operation' = Some y" by simp
      from 1(1) [OF this] obtain n where n: "fst y = ?tr @ pollTrace n"
        "pendingFrom getOp ?tr operation' n"
        "case statusAfter getOp ?tr operation' n of
              Inl e \<Rightarrow> snd y = Inl e
            | Inr opn \<Rightarrow> truthyFlag (isDone opn) \<and> snd y = Inr opn"
        by blast
      from n False Inr have "fst y = tr @ pollTrace (Suc n)
        \<and> pendingFrom getOp tr operation (Suc n)
        \<and> (case statusAfter getOp tr operation (Suc n) of
              Inl e \<Rightarrow> snd y = Inl e
            | Inr opn \<Rightarrow> truthyFlag (isDone opn) \<and> snd y = Inr opn)"
        by (simp add: pollTrace_Suc pendingFrom_Suc)
      then show ?thesis by blast
    qed
  qed
qed

lemma pollLoop_returned:
  assumes "pollLoop q tr operation = Some (tr', s)"
  shows "\<exists>n. tr' = tr @ pollTrace n \<and> pendingFrom q tr operation n
      \<and> (case statusAfter q tr operation n of
            Inl e \<Rightarrow> s = Inl e
          | Inr opn \<Rightarrow> truthyFlag (isDone opn) \<and> s = Inr opn)"
  using pollLoop_returned_aux [OF assms] by (simp cong: sum.case_cong)

text \<open>
  Claim C1. A run of either video function repeats "wait 5000 ms, then re-query the
  status" for as long as the operation it holds is not done, and no longer. If the first
  \<open>n\<close> statuses (the submitted operation and the answers to the re-queries) are not done
  and the next one is done, the run returns after exactly \<open>n\<close> delayed re-queries, with
  the URL or the error that the completed operation gives; if instead the re-query after
  them throws, the run fails with that error after exactly \<open>n + 1\<close>. Conversely a run
  that returns has the trace of some \<open>k\<close> iterations, the first \<open>k\<close> statuses not done and
  the next one done or thrown. In particular: not done, not done, then done with a link
  is exactly two delayed re-queries and the link with the key; done at the submission is
  no re-query at all.
\<close>
theorem poller_delay_then_requery:
  "(runVideo w run = Some (tr, r) \<longrightarrow> (\<exists>k. tr = pollTrace k))
   \<and> (submitted w run op0 \<and> pendingFrom (getVideosOperation w) [] op0 n
        \<and> statusAfter (getVideosOperation w) [] op0 n = Inr opn \<and> truthyFlag (isDone opn)
      \<longrightarrow> runVideo w run =
            Some (pollTrace n,
                  if truthy (downloadLink opn)
                  then Inr (tpl (downloadLink opn) @ js ''&key='' @ tpl (API_KEY w))
                  else Inl (Error (runFailureMessage run))))
   \<and> (submitted w run op0 \<and> pendingFrom (getVideosOperation w) [] op0 (Suc n)
        \<and> statusAfter (getVideosOperation w) [] op0 (Suc n) = Inl e
      \<longrightarrow> runVideo w run = Some (pollTrace (Suc n), Inl e))
   \<and> (submitted w run op0 \<and> runVideo w run = Some (tr, r)
      \<longrightarrow> (\<exists>k. tr = pollTrace k \<and> pendingFrom (getVideosOperation w) [] op0 k
              \<and> (case statusAfter (getVideosOperation w) [] op0 k of
                    Inl e \<Rightarrow> 0 < k \<and> r = Inl e
                  | Inr opk \<Rightarrow>
                      truthyFlag (isDone opk)
                      \<and> r = (if truthy (downloadLink opk)
                             then Inr (tpl (downloadLink opk) @ js ''&key='' @ tpl (API_KEY w))
                             else Inl (Error (runFailureMessage run))))))
   \<and> (submitted w run op0 \<and> \<not> truthyFlag (isDone op0)
        \<and> getVideosOperation w [] op0 = Inr op1 \<and> \<not> truthyFlag (isDone op1)
        \<and> getVideosOperation w [SetTimeout 5000, GetVideosOperation] op1 = Inr op2
        \<and> isDone op2 = Some True \<and> downloadLink op2 = Some u \<and> u \<noteq> []
      \<longrightarrow> runVideo w run =
            Some ([SetTimeout 5000, GetVideosOperation, SetTimeout 5000, GetVideosOperation],
                  Inr (u @ js ''&key='' @ tpl (API_KEY w))))
   \<and> (submitted w run op0 \<and> isDone op0 = Some True
      \<longrightarrow> (\<exists>r'. runVideo w run = Some ([], r')))"
proof (intro conjI impI)
  assume "runVideo w run = Some (tr, r)"
  then show "\<exists>k. tr = pollTrace k" by (rule runVideo_trace)
next
  assume h: "submitted w run op0 \<and> pendingFrom (getVideosOperation w) [] op0 n
        \<and> statusAfter (getVideosOperation w) [] op0 n = Inr opn \<and> truthyFlag (isDone opn)"
  then have "pollLoop (getVideosOperation w) [] op0 = Some (pollTrace n, Inr opn)"
    using pollLoop_after_pending [of "getVideosOperation w" "[]" op0 n opn] by simp
  from awaitVideo_completed [OF this, of "runFailureMessage run"] h
  show "runVideo w run =
      Some (pollTrace n,
            if truthy (downloadLink opn)
            then Inr (tpl (downloadLink opn) @ js ''&key='' @ tpl (API_KEY w))
            else Inl (Error (runFailureMessage run)))"
    using runVideo_submitted [of w run op0] by simp
next
  assume h: "submitted w run op0 \<and> pendingFrom (getVideosOperation w) [] op0 (Suc n)
        \<and> statusAfter (getVideosOperation w) [] op0 (Suc n) = Inl e"
  then have "pollLoop (getVideosOperation w) [] op0 = Some (pollTrace (Suc n), Inl e)"
    using pollLoop_throws_after_pending [of "getVideosOperation w" "[]" op0 n e] by simp
  then have "awaitVideo w (runFailureMessage run) op0 = Some (pollTrace (Suc n), Inl e)"
    by (simp add: awaitVideo_def)
  with h show "runVideo w run = Some (pollTrace (Suc n), Inl e)"
    using runVideo_submitted [of w run op0] by simp
next
  assume h: "submitted w run op0 \<and> runVideo w run = Some (tr, r)"
  let ?q = "getVideosOperation w"
  let ?res = "\<lambda>opk. if truthy (downloadLink opk)
      then Inr (tpl (downloadLink opk) @ js ''&key='' @ tpl (API_KEY w))
      else Inl (Error (runFailureMessage run))"
  from h have a: "awaitVideo w (runFailureMessage run) op0 = Some (tr, r)"
    using runVideo_submitted [of w run op0] by simp
  then obtain s where p: "pollLoop ?q [] op0 = Some (tr, s)"
    and r: "r = (case s of Inl e \<Rightarrow> Inl e | Inr opk \<Rightarrow> ?res opk)"
    by (auto simp: awaitVideo_def split: option.splits sum.splits if_splits)
  from pollLoop_returned [OF p] obtain k where k: "tr = pollTrace k"
    "pendingFrom ?q [] op0 k"
    "case statusAfter ?q [] op0 k of
       Inl e \<Rightarrow> s = Inl e
     | Inr opk \<Rightarrow> truthyFlag (isDone opk) \<and> s = Inr opk"
    by auto
  have z: "\<forall>e. statusAfter ?q [] op0 k = Inl e \<longrightarrow> 0 < k"
    by (cases k) simp_all
  from k(3) r z have "case statusAfter ?q [] op0 k of
       Inl e \<Rightarrow> 0 < k \<and> r = Inl e
     | Inr opk \<Rightarrow> truthyFlag (isDone opk) \<and> r = ?res opk"
    by (auto split: sum.splits)
  with k(1,2) show "\<exists>k. tr = pollTrace k \<and> pendingFrom ?q [] op0 k
      \<and> (case statusAfter ?q [] op0 k of
            Inl e \<Rightarrow> 0 < k \<and> r = Inl e
          | Inr opk \<Rightarrow> truthyFlag (isDone opk) \<and> r = ?res opk)"
    by blast
next
  assume h: "submitted w run op0 \<and> \<not> truthyFlag (isDone op0)
        \<and> getVideosOperation w [] op0 = Inr op1 \<and> \<not> truthyFlag (isDone op1)
        \<and> getVideosOperation w [SetTimeout 5000, GetVideosOperation] op1 = Inr op2
        \<and> isDone op2 = Some True \<and> downloadLink op2 = Some u \<and> u \<noteq> []"
  let ?q = "getVideosOperation w"
  let ?t2 = "[SetTimeout 5000, GetVideosOperation, SetTimeout 5000, GetVideosOperation]"
  from h have "pollLoop ?q [] op0 = pollLoop ?q [SetTimeout 5000, GetVideosOperation] op1"
    using pollLoop_step [of op0 ?q "[]" op1] by simp
  also from h have "\<dots> = pollLoop ?q ?t2 op2"
    using pollLoop_step [of op1 ?q "[SetTimeout 5000, GetVideosOperation]" op2] by simp
  also from h have "\<dots> = Some (?t2, Inr op2)"
    using pollLoop_done [of op2 ?q ?t2] by (simp add: truthyFlag_def)
  finally have "awaitVideo w (runFailureMessage run) op0 =
      Some (?t2, Inr (u @ js ''&key='' @ tpl (API_KEY w)))"
    using h by (simp add: awaitVideo_completed truthy_def tpl_def)
  with h show "runVideo w run = Some (?t2, Inr (u @ js ''&key='' @ tpl (API_KEY w)))"
    using runVideo_submitted [of w run op0] by simp
next
  assume h: "submitted w run op0 \<and> isDone op0 = Some True"
  then have "pollLoop (getVideosOperation w) [] op0 = Some ([], Inr op0)"
    by (simp add: pollLoop_done truthyFlag_def)
  then have "\<exists>r'. awaitVideo w (runFailureMessage run) op0 = Some ([], r')"
    by (simp add: awaitVideo_completed)
  with h show "\<exists>r'. runVideo w run = Some ([], r')"
    using runVideo_submitted [of w run op0] by simp
qed

lemma mock_submitted: "submitted (mockWorld r a xs b) run a"
  by (simp add: submitted_def mockWorld_def ensurePaidApiKey_def)

text \<open>
  Three pending answers and then a completed one: the run returns after four delayed
  re-queries. One pending answer: after two. Done at the submission: after none.
\<close>

theorem poller_delay_then_requery_witness:
  "runVideo
     (mockWorld (textResponse []) pendingOperation
        [pendingOperation, pendingOperation, pendingOperation]
        (completedOperation (Some (js ''https://v/1?alt=media''))))
     (TextToVideo (js ''a fox'') Landscape_16_9)
   = Some ([SetTimeout 5000, GetVideosOperation, SetTimeout 5000, GetVideosOperation,
            SetTimeout 5000, GetVideosOperation, SetTimeout 5000, GetVideosOperation],
           Inr (js ''https://v/1?alt=media&key=K''))
   \<and> runVideo
       (mockWorld (textResponse []) pendingOperation [pendingOperation]
          (completedOperation (Some (js ''https://v/1?alt=media''))))
       (TextToVideo (js ''a fox'') Landscape_16_9)
     = Some ([SetTimeout 5000, GetVideosOperation, SetTimeout 5000, GetVideosOperation],
             Inr (js ''https://v/1?alt=media&key=K''))
   \<and> (\<exists>r'. runVideo (mockWorld (textResponse []) (completedOperation None) [] pendingOperation)
          (ImageToVideo (Some (js ''AAAA'')) None Portrait_9_16) = Some ([], r'))"
proof -
  let ?u = "js ''https://v/1?alt=media''"
  let ?w4 = "mockWorld (textResponse []) pendingOperation
      [pendingOperation, pendingOperation, pendingOperation] (completedOperation (Some ?u))"
  let ?w2 = "mockWorld (textResponse []) pendingOperation [pendingOperation]
      (completedOperation (Some ?u))"
  let ?w0 = "mockWorld (textResponse []) (completedOperation None) [] pendingOperation"
  let ?run = "TextToVideo (js ''a fox'') Landscape_16_9"
  let ?four = "Suc (Suc (Suc (Suc 0)))"
  have nd: "\<not> truthyFlag (isDone pendingOperation)"
    by (simp add: pendingOperation_def truthyFlag_def)
  have d: "truthyFlag (isDone (completedOperation (Some ?u)))"
    by (simp add: completedOperation_def truthyFlag_def)
  have l: "truthy (downloadLink (completedOperation (Some ?u)))"
    "tpl (downloadLink (completedOperation (Some ?u))) = ?u"
    by (simp_all add: completedOperation_def downloadLink_def truthy_def tpl_def js_def)
  have k: "tpl (API_KEY ?w4) = js ''K''"
    by (simp add: mockWorld_def tpl_def)
  have s: "statusAfter (getVideosOperation ?w4) [] pendingOperation ?four
      = Inr (completedOperation (Some ?u))"
    by (simp add: mockWorld_def)
  have p: "pendingFrom (getVideosOperation ?w4) [] pendingOperation ?four"
    by (simp add: pendingFrom_Suc pendingFrom_0 nd mockWorld_def)
  have t: "pollTrace ?four =
      [SetTimeout 5000, GetVideosOperation, SetTimeout 5000, GetVideosOperation,
       SetTimeout 5000, GetVideosOperation, SetTimeout 5000, GetVideosOperation]"
    by (simp add: pollTrace_Suc pollTrace_0)
  have a: "runVideo ?w4 ?run = Some (pollTrace ?four, Inr (?u @ js ''&key='' @ js ''K''))"
    using poller_delay_then_requery [of ?w4 ?run "[]" "Inl TypeError" pendingOperation ?four
        "completedOperation (Some ?u)"]
      mock_submitted [of "textResponse []" pendingOperation
        "[pendingOperation, pendingOperation, pendingOperation]" "completedOperation (Some ?u)" ?run]
      p s d l k
    by simp
  have b: "runVideo ?w2 ?run =
      Some ([SetTimeout 5000, GetVideosOperation, SetTimeout 5000, GetVideosOperation],
            Inr (js ''https://v/1?alt=media&key=K''))"
    using poller_delay_then_requery [of ?w2 ?run "[]" "Inl TypeError" pendingOperation 0
        pendingOperation TypeError pendingOperation "completedOperation (Some ?u)" ?u]
    by (simp add: mock_submitted)
       (simp add: mockWorld_def pendingOperation_def completedOperation_def truthyFlag_def
          downloadLink_def tpl_def js_def)
  have c: "\<exists>r'. runVideo ?w0 (ImageToVideo (Some (js ''AAAA'')) None Portrait_9_16) = Some ([], r')"
    using poller_delay_then_requery [of ?w0 "ImageToVideo (Some (js ''AAAA'')) None Portrait_9_16"
        "[]" "Inl TypeError" "completedOperation None"]
    by (simp add: mock_submitted)
       (simp add: completedOperation_def)
  from a t b c show ?thesis by (simp add: js_def)
qed

lemma pollLoop_returns_done_aux:
  assumes "pollLoop q tr operation = Some y"
  shows "\<forall>operation'. snd y = Inr operation' \<longrightarrow> truthyFlag (isDone operation')"
proof (rule pollLoop.raw_induct
    [where P = "\<lambda>q tr operation y.
        \<forall>operation'. snd y = Inr operation' \<longrightarrow> truthyFlag (isDone operation')",
     OF _ assms], goal_cases)
  case (1 f getOp tr operation y)
  show ?case
  proof (cases "truthyFlag (isDone operation)")
    case True
    with 1(2) show ?thesis by auto
  next
    case False
    show ?thesis
    proof (cases "getOp tr operation")
      case (Inl e)
      with False 1(2) show ?thesis by auto
    next
      case (Inr operation')
      with False 1(2)
      have "f getOp (tr @ [SetTimeout 5000, GetVideosOperation]) operation' = Some y"
        by simp
      then show ?thesis by (rule 1(1))
    qed
  qed
qed

lemma pollLoop_returns_done:
  "pollLoop q tr operation = Some (tr', Inr operation') \<Longrightarrow> truthyFlag (isDone operation')"
  using pollLoop_returns_done_aux [of q tr operation "(tr', Inr operation')"] by simp

text \<open>
  Claim C2. When the submitted operation is not done and every re-query is answered with
  an operation that is not done, a run of either video function never returns, and
  however many iterations \<open>n\<close> the loop is given, it has then made \<open>n\<close> re-queries, each
  after the same 5000 ms, and is still polling: there is no bound on the retries, no
  growing delay and no way out.
\<close>
theorem poller_never_terminates:
  assumes "neverDone (getVideosOperation w)"
    and "submitted w run op0"
    and "\<not> truthyFlag (isDone op0)"
  shows "runVideo w run = None
    \<and> (\<forall>n. pollSteps (getVideosOperation w) n [] op0 = (pollTrace n, None))"
proof
  from assms(1,3) have "pollLoop (getVideosOperation w) [] op0 = None"
    by (rule pollLoop_neverDone)
  then have "awaitVideo w (runFailureMessage run) op0 = None"
    by (simp add: awaitVideo_def)
  with assms(2) show "runVideo w run = None"
    using runVideo_submitted [of w run op0] by simp
next
  show "\<forall>n. pollSteps (getVideosOperation w) n [] op0 = (pollTrace n, None)"
    using pollSteps_neverDone [OF assms(1,3), of _ "[]"] by simp
qed

lemma mock_neverDone:
  "neverDone (getVideosOperation (mockWorld r a [] pendingOperation))"
  by (simp add: neverDone_def mockWorld_def pendingOperation_def truthyFlag_def)

theorem poller_never_terminates_witness:
  "runVideo (mockWorld (textResponse []) pendingOperation [] pendingOperation)
     (TextToVideo (js ''a fox'') Landscape_16_9) = None
   \<and> pollSteps (getVideosOperation (mockWorld (textResponse []) pendingOperation [] pendingOperation)) 3 []
       pendingOperation
     = ([SetTimeout 5000, GetVideosOperation, SetTimeout 5000, GetVideosOperation,
         SetTimeout 5000, GetVideosOperation], None)"
proof -
  have nd: "\<not> truthyFlag (isDone pendingOperation)"
    by (simp add: pendingOperation_def truthyFlag_def)
  have "pollTrace 3 =
      [SetTimeout 5000, GetVideosOperation, SetTimeout 5000, GetVideosOperation,
       SetTimeout 5000, GetVideosOperation]"
    by (simp add: pollTrace_def numeral_3_eq_3)
  with poller_never_terminates [OF mock_neverDone mock_submitted nd] show ?thesis by simp
qed

text \<open>
  Claim C3. Let the poll loop of a run end with the completed operation \<open>opf\<close> after the
  trace \<open>tr\<close>. The operation is done. If it carries no media URI (the \<open>uri\<close> of its first
  generated video is absent or the empty string, which is what the check \<open>!downloadLink\<close>
  tests), the run fails with the error of that function, and its trace is still \<open>tr\<close>:
  nothing was polled after the completion. The run returns a URL exactly when the
  operation carries a media URI. When the submission itself answers with a completed
  operation, \<open>tr\<close> is empty.
\<close>
theorem poller_fails_fast_without_uri:
  assumes "submitted w run op0"
    and "pollLoop (getVideosOperation w) [] op0 = Some (tr, Inr opf)"
  shows "truthyFlag (isDone opf)
    \<and> (\<not> truthy (downloadLink opf) \<longrightarrow>
          runVideo w run = Some (tr, Inl (Error (runFailureMessage run))))
    \<and> ((\<exists>url. runVideo w run = Some (tr, Inr url)) \<longleftrightarrow> truthy (downloadLink opf))
    \<and> (truthyFlag (isDone op0) \<longrightarrow> tr = [] \<and> opf = op0)"
proof -
  have r: "runVideo w run =
      Some (tr, if truthy (downloadLink opf)
                then Inr (tpl (downloadLink opf) @ js ''&key='' @ tpl (API_KEY w))
                else Inl (Error (runFailureMessage run)))"
    using runVideo_submitted [OF assms(1)] awaitVideo_completed [OF assms(2)] by simp
  have d: "truthyFlag (isDone opf)"
    using assms(2) by (rule pollLoop_returns_done)
  have z: "truthyFlag (isDone op0) \<longrightarrow> tr = [] \<and> opf = op0"
    using assms(2) pollLoop_done [of op0 "getVideosOperation w" "[]"] by auto
  from r d z show ?thesis by simp
qed

theorem poller_fails_fast_without_uri_witness:
  "runVideo (mockWorld (textResponse []) (completedOperation None) [] pendingOperation)
     (TextToVideo (js ''a fox'') Landscape_16_9)
     = Some ([], Inl (Error (js ''Video generation failed'')))
   \<and> runVideo (mockWorld (textResponse []) (completedOperation None) [] pendingOperation)
     (ImageToVideo (Some (js ''AAAA'')) None Landscape_16_9)
     = Some ([], Inl (Error (js ''Video animation failed'')))"
proof -
  let ?w = "mockWorld (textResponse []) (completedOperation None) [] pendingOperation"
  have p: "pollLoop (getVideosOperation ?w) [] (completedOperation None)
      = Some ([], Inr (completedOperation None))"
    by (rule pollLoop_done) (simp add: completedOperation_def truthyFlag_def)
  have n: "\<not> truthy (downloadLink (completedOperation None))"
    by (simp add: completedOperation_def downloadLink_def truthy_def)
  from n poller_fails_fast_without_uri [OF mock_submitted p, of "TextToVideo (js ''a fox'') Landscape_16_9"]
    poller_fails_fast_without_uri [OF mock_submitted p, of "ImageToVideo (Some (js ''AAAA'')) None Landscape_16_9"]
  show ?thesis by (simp add: runFailureMessage_def)
qed

text \<open>
  Claim C10. Whatever URL a run of either video function returns, it is the media URI \<open>u\<close>
  of the completed operation, followed by \<open>&key=\<close>, followed by \<open>process.env.API_KEY\<close> as
  a template literal writes it; it is never \<open>u\<close> alone, and with the credential set to \<open>k\<close>
  it is \<open>u&key=k\<close>.
\<close>
theorem video_url_carries_api_key:
  assumes "runVideo w run = Some (tr, Inr url)"
  shows "\<exists>op0 opf u.
      generateVideos w (runParams run) = Inr op0
      \<and> pollLoop (getVideosOperation w) [] op0 = Some (tr, Inr opf)
      \<and> downloadLink opf = Some u
      \<and> url = u @ js ''&key='' @ tpl (API_KEY w)
      \<and> url \<noteq> u
      \<and> (\<forall>k. API_KEY w = Some k \<longrightarrow> url = u @ js ''&key='' @ k)"
proof -
  from assms obtain op0 where s: "generateVideos w (runParams run) = Inr op0"
    and a: "awaitVideo w (runFailureMessage run) op0 = Some (tr, Inr url)"
    by (auto simp: runVideo_unfold split: sum.splits)
  from a obtain opf where p: "pollLoop (getVideosOperation w) [] op0 = Some (tr, Inr opf)"
    and t: "truthy (downloadLink opf)"
    and u: "url = tpl (downloadLink opf) @ js ''&key='' @ tpl (API_KEY w)"
    by (auto simp: awaitVideo_def split: option.splits sum.splits if_splits)
  from t obtain l where l: "downloadLink opf = Some l"
    by (auto simp: truthy_def split: option.splits)
  have "js ''&key='' @ tpl (API_KEY w) \<noteq> []" by (simp add: js_def)
  then have "l @ js ''&key='' @ tpl (API_KEY w) \<noteq> l" by simp
  with s p l u show ?thesis by (auto simp: tpl_def)
qed

theorem video_url_carries_api_key_witness:
  "\<exists>op0 opf u.
      generateVideos (mockWorld (textResponse []) (completedOperation (Some (js ''https://v/1?alt=media''))) []
        pendingOperation) (runParams (TextToVideo (js ''a fox'') Landscape_16_9)) = Inr op0
      \<and> pollLoop (getVideosOperation (mockWorld (textResponse []) (completedOperation (Some (js ''https://v/1?alt=media''))) []
        pendingOperation)) [] op0 = Some ([], Inr opf)
      \<and> downloadLink opf = Some u
      \<and> js ''https://v/1?alt=media&key=K'' = u @ js ''&key='' @ js ''K''"
proof -
  let ?u = "js ''https://v/1?alt=media''"
  let ?w = "mockWorld (textResponse []) (completedOperation (Some ?u)) [] pendingOperation"
  let ?run = "TextToVideo (js ''a fox'') Landscape_16_9"
  have p: "pollLoop (getVideosOperation ?w) [] (completedOperation (Some ?u))
      = Some ([], Inr (completedOperation (Some ?u)))"
    by (rule pollLoop_done) (simp add: completedOperation_def truthyFlag_def)
  have t: "truthy (downloadLink (completedOperation (Some ?u)))"
    by (simp add: completedOperation_def downloadLink_def truthy_def js_def)
  have k: "tpl (API_KEY ?w) = js ''K''"
    by (simp add: mockWorld_def tpl_def)
  have "runVideo ?w ?run = Some ([], Inr (js ''https://v/1?alt=media&key=K''))"
    using runVideo_submitted [of ?w ?run "completedOperation (Some ?u)"] mock_submitted
      awaitVideo_completed [OF p, of "runFailureMessage ?run"] t k
    by (simp add: completedOperation_def downloadLink_def tpl_def js_def)
  from video_url_carries_api_key [OF this] show ?thesis unfolding k by blast
qed

subsection \<open>Facts about the test doubles\<close>

lemma mock_paid: "ensurePaidApiKey (mockWorld r a xs b) = Inr True"
  by (simp add: mockWorld_def ensurePaidApiKey_def)

lemma mock_content: "generateContent (mockWorld r a xs b) req = Inr r"
  by (simp add: mockWorld_def)

lemma mock_strategy:
  "generateStrategy (mockWorld (textResponse s) a xs b) brand g = Inr (Some s)"
  by (simp add: generateStrategy_def mock_content textResponse_def)

lemma fresh_fields:
  "brandNameField (freshScreen brand g) = brand"
  "goals (freshScreen brand g) = g"
  "strategyMode (freshScreen brand g) = StrategyMode"
  "campaign (freshScreen brand g) = None"
  "console (freshScreen brand g) = []"
  by (simp_all add: freshScreen_def)

lemma samplePayload_parse: "JSON_parse samplePayload = Inr sampleDetails"
  by (simp add: samplePayload_def sampleDetails_def JSON_parse_def js_def isWhitespace_def
      isDigit_def expectsValue_def)

lemma sampleDetails_shape: "requestedShape sampleDetails"
  by (simp add: requestedShape_def sampleDetails_def stringField_def stringsField_def js_def)

subsection \<open>Image generation\<close>

lemma firstInlineImage_none:
  "\<forall>x\<in>set ps. inlineData x = None \<Longrightarrow> firstInlineImage msg ps = Inl (Error msg)"
  by (induction ps) simp_all

lemma firstInlineImage_first:
  "\<forall>y\<in>set pre. inlineData y = None \<Longrightarrow> inlineData x = Some bl \<Longrightarrow>
   firstInlineImage msg (pre @ x # post) = Inr (js ''data:image/png;base64,'' @ tpl (data bl))"
  by (induction pre) simp_all

lemma firstInlineImage_nonempty: "firstInlineImage msg ps \<noteq> Inr []"
  by (induction ps) (simp_all add: js_def split: option.splits)

lemma generateProImage_answered:
  "ensurePaidApiKey w = Inr b \<Longrightarrow> generateContent w (proImageRequest p ar sz) = Inr r \<Longrightarrow>
   generateProImage w p ar sz = firstInlineImage (js ''No image generated'') (responseParts r)"
  by (simp add: generateProImage_def)

lemma editImageWithFlash_answered:
  "generateContent w (editImageRequest img q) = Inr r \<Longrightarrow>
   editImageWithFlash w img q =
     firstInlineImage (js ''No edited image returned'') (responseParts r)"
  by (simp add: editImageWithFlash_def)

text \<open>
  Claim C8. Let the gateway answer the image request with \<open>r\<close> and the edit request with
  \<open>r'\<close>. If no part of the first candidate has inline data, the image generation call
  fails with the error "No image generated" (the edit call with "No edited image
  returned"). If some part has, the call returns the data URI made of the data of the
  first such part. The call never returns the empty string.
\<close>

theorem image_call_fails_without_inline_data:
  assumes "ensurePaidApiKey w = Inr b"
    and "generateContent w (proImageRequest p ar sz) = Inr r"
    and "generateContent w (editImageRequest img q) = Inr r'"
  shows "((\<forall>x\<in>set (responseParts r). inlineData x = None) \<longrightarrow>
            generateProImage w p ar sz = Inl (Error (js ''No image generated'')))
    \<and> ((\<forall>x\<in>set (responseParts r'). inlineData x = None) \<longrightarrow>
            editImageWithFlash w img q = Inl (Error (js ''No edited image returned'')))
    \<and> (\<forall>pre x post bl.
          responseParts r = pre @ x # post \<and> (\<forall>y\<in>set pre. inlineData y = None)
          \<and> inlineData x = Some bl \<longrightarrow>
            generateProImage w p ar sz = Inr (js ''data:image/png;base64,'' @ tpl (data bl)))
    \<and> (\<forall>pre x post bl.
          responseParts r' = pre @ x # post \<and> (\<forall>y\<in>set pre. inlineData y = None)
          \<and> inlineData x = Some bl \<longrightarrow>
            editImageWithFlash w img q = Inr (js ''data:image/png;base64,'' @ tpl (data bl)))
    \<and> generateProImage w p ar sz \<noteq> Inr [] \<and> editImageWithFlash w img q \<noteq> Inr []"
  unfolding generateProImage_answered [OF assms(1,2)] editImageWithFlash_answered [OF assms(3)]
  by (auto simp: firstInlineImage_none firstInlineImage_first firstInlineImage_nonempty)

text \<open>
  A response with a text part only makes both calls fail; a text part followed by an
  image part makes the image call return the data URI of the image.
\<close>

theorem image_call_fails_without_inline_data_witness:
  "generateProImage
      (mockWorld (partsResponse [textPart (js ''Sorry'')]) pendingOperation [] pendingOperation)
      (js ''a shoe'') SQUARE K1 = Inl (Error (js ''No image generated''))
   \<and> editImageWithFlash
      (mockWorld (partsResponse [textPart (js ''Sorry'')]) pendingOperation [] pendingOperation)
      (Some (js ''AAAA'')) (js ''on a beach'') = Inl (Error (js ''No edited image returned''))
   \<and> generateProImage
      (mockWorld (partsResponse [textPart (js ''Here''), imagePart (js ''QUJD'')])
         pendingOperation [] pendingOperation)
      (js ''a shoe'') SQUARE K1 = Inr (js ''data:image/png;base64,QUJD'')"
proof -
  let ?none = "partsResponse [textPart (js ''Sorry'')]"
  let ?some = "partsResponse [textPart (js ''Here''), imagePart (js ''QUJD'')]"
  note a =
    image_call_fails_without_inline_data [OF mock_paid mock_content mock_content,
      of ?none pendingOperation "[]" pendingOperation "js ''a shoe''" SQUARE K1
         "Some (js ''AAAA'')" "js ''on a beach''"]
  note b =
    image_call_fails_without_inline_data [OF mock_paid mock_content mock_content,
      of ?some pendingOperation "[]" pendingOperation "js ''a shoe''" SQUARE K1
         "Some (js ''AAAA'')" "js ''on a beach''"]
  have n: "\<forall>x\<in>set (responseParts ?none). inlineData x = None"
    by (simp add: partsResponse_def responseParts_def textPart_def)
  from b have "\<forall>pre x post bl.
      responseParts ?some = pre @ x # post \<and> (\<forall>y\<in>set pre. inlineData y = None)
      \<and> inlineData x = Some bl \<longrightarrow>
        generateProImage (mockWorld ?some pendingOperation [] pendingOperation)
          (js ''a shoe'') SQUARE K1 = Inr (js ''data:image/png;base64,'' @ tpl (data bl))"
    by (elim conjE)
  from this [rule_format, of "[textPart (js ''Here'')]" "imagePart (js ''QUJD'')" "[]"
      "\<lparr>blobMimeType = Some (js ''image/jpeg''), data = Some (js ''QUJD'')\<rparr>"]
  have s: "generateProImage (mockWorld ?some pendingOperation [] pendingOperation)
      (js ''a shoe'') SQUARE K1 = Inr (js ''data:image/png;base64,QUJD'')"
    by (simp add: partsResponse_def responseParts_def textPart_def imagePart_def tpl_def js_def)
  from a n s show ?thesis by simp
qed

subsection \<open>Local image files\<close>

lemma jsSplit_no_sep: "sep \<notin> set s \<Longrightarrow> jsSplit sep s = [s]"
  by (induction s) auto

lemma jsSplit_at_first_sep:
  "sep \<notin> set a \<Longrightarrow> jsSplit sep (a @ sep # b) = a # jsSplit sep b"
  by (induction a) auto

lemma isBase64Char_not_comma: "isBase64Char c \<Longrightarrow> c \<noteq> 0x2C"
  by (auto simp: isBase64Char_def)

lemma dataUrl_split:
  assumes "0x2C \<notin> set mime" and "\<forall>c\<in>set payload. isBase64Char c"
  shows "jsSplit 0x2C (dataUrl mime payload) = [js ''data:'' @ mime @ js '';base64'', payload]"
proof -
  have p: "0x2C \<notin> set payload"
    using assms(2) isBase64Char_not_comma by blast
  have h: "0x2C \<notin> set (js ''data:'' @ mime @ js '';base64'')"
    using assms(1) by (simp add: js_def)
  have "dataUrl mime payload = (js ''data:'' @ mime @ js '';base64'') @ 0x2C # payload"
    by (simp add: dataUrl_def js_def)
  then show ?thesis
    using jsSplit_at_first_sep [OF h, of payload] jsSplit_no_sep [OF p] by simp
qed

text \<open>
  Claim C9. For a media type without a comma and a payload of base64 characters, the data
  URI \<open>data:<mime>;base64,<payload>\<close> splits at its commas into exactly two segments, the
  second of which, the one the handlers take, is the payload as it was; and it is this
  payload that the remix handler attaches to its request.
\<close>

theorem data_url_payload_round_trip:
  assumes "0x2C \<notin> set mime" and "\<forall>c\<in>set payload. isBase64Char c"
  shows "jsSplit 0x2C (dataUrl mime payload) = [js ''data:'' @ mime @ js '';base64'', payload]
    \<and> base64Data (dataUrl mime payload) = Some payload
    \<and> contents (remixRequest (dataUrl mime payload) p) =
        Parts [\<lparr>partText = None,
                inlineData =
                  Some \<lparr>blobMimeType = Some (js ''image/png''), data = Some payload\<rparr>\<rparr>,
               \<lparr>partText = Some p, inlineData = None\<rparr>]"
proof -
  note s = dataUrl_split [OF assms]
  then have b: "base64Data (dataUrl mime payload) = Some payload"
    by (simp add: base64Data_def at_def)
  from s b show ?thesis by (simp add: remixRequest_def editImageRequest_def)
qed

theorem data_url_payload_round_trip_witness:
  "base64Data (js ''data:image/png;base64,iVBORw0KGgo='') = Some (js ''iVBORw0KGgo='')"
proof -
  have m: "0x2C \<notin> set (js ''image/png'')" by (simp add: js_def)
  have p: "\<forall>c\<in>set (js ''iVBORw0KGgo=''). isBase64Char c"
    by (simp add: js_def isBase64Char_def)
  have "dataUrl (js ''image/png'') (js ''iVBORw0KGgo='')
      = js ''data:image/png;base64,iVBORw0KGgo=''"
    by (simp add: dataUrl_def js_def)
  with data_url_payload_round_trip [OF m p] show ?thesis by simp
qed

subsection \<open>Auto-fill\<close>

text \<open>
  Claim C6. On both consumer screens the effect that runs when the campaign changes leaves
  a prompt field that is not empty as it is, whatever the campaign; and when the effect
  changes the state at all, the field was empty, there is a campaign, and the only change
  is the field set to the string derived from that campaign (on the Image Studio, on the
  generate tab only).
\<close>

theorem autofill_only_if_empty:
  "(prompt v \<noteq> [] \<longrightarrow> videoLabEffect c v = v)
   \<and> (genPrompt i \<noteq> [] \<longrightarrow> imageStudioEffect c i = i)
   \<and> (videoLabEffect c v \<noteq> v \<longrightarrow>
        prompt v = [] \<and> (\<exists>a. c = Some a \<and> videoLabEffect c v = v\<lparr>prompt := videoConcept a\<rparr>))
   \<and> (imageStudioEffect c i \<noteq> i \<longrightarrow>
        genPrompt i = [] \<and> activeTab i = GenerateTab
        \<and> (\<exists>a. c = Some a
              \<and> imageStudioEffect c i =
                  i\<lparr>genPrompt := js ''Create a high-quality marketing image for '' @ brandName a @
                                  js ''. '' @ visualStyle a\<rparr>))"
  by (auto simp: videoLabEffect_def imageStudioEffect_def split: option.splits if_splits)

text \<open>A field the user has typed in survives a campaign, on both screens.\<close>

theorem autofill_only_if_empty_witness:
  "videoLabEffect (Some sampleCampaign) \<lparr>prompt = js ''my idea'', sourceImage = None\<rparr>
     = \<lparr>prompt = js ''my idea'', sourceImage = None\<rparr>
   \<and> imageStudioEffect (Some sampleCampaign)
       \<lparr>activeTab = GenerateTab, genPrompt = js ''my idea'', remixSource = None,
        remixPrompt = []\<rparr>
     = \<lparr>activeTab = GenerateTab, genPrompt = js ''my idea'', remixSource = None,
        remixPrompt = []\<rparr>"
proof -
  let ?v = "\<lparr>prompt = js ''my idea'', sourceImage = None\<rparr>"
  let ?i = "\<lparr>activeTab = GenerateTab, genPrompt = js ''my idea'', remixSource = None,
        remixPrompt = []\<rparr>"
  note t = autofill_only_if_empty [of ?v "Some sampleCampaign" ?i]
  have n: "prompt ?v \<noteq> []" "genPrompt ?i \<noteq> []"
    by (simp_all add: js_def)
  from t [THEN conjunct1] n(1) have a: "videoLabEffect (Some sampleCampaign) ?v = ?v"
    by (rule mp)
  from t [THEN conjunct2, THEN conjunct1] n(2)
  have b: "imageStudioEffect (Some sampleCampaign) ?i = ?i"
    by (rule mp)
  from a b show ?thesis by (rule conjI)
qed

subsection \<open>The campaign extractor\<close>

lemma substring_prefix: "substring 0 n s = take n s"
  by (simp add: substring_def Let_def min_def)

lemma JSON_parse_error: "JSON_parse s = Inl e \<Longrightarrow> e = SyntaxError"
  by (auto simp: JSON_parse_def split: option.splits)

lemma extractCampaignDetails_answered:
  "generateContent w (extractRequest t) = Inr r \<Longrightarrow>
   extractCampaignDetails w (Some t) = JSON_parse (tpl (responseText r))"
  by (simp add: extractCampaignDetails_def)

text \<open>
  Claim C7. The text embedded in the extraction prompt, \<open>strategyText.substring(0, 5000)\<close>,
  is the first 5000 code units of the strategy text, the whole text when it has no more
  than 5000. The request sent has that prompt, between the fixed head and tail of the
  template, as its contents; it asks for JSON with a schema whose properties are exactly
  \<open>visualStyle\<close>, \<open>videoConcept\<close>, \<open>socialHooks\<close> and \<open>targetAudience\<close>. The extractor
  sends this request and no other: when the gateway rejects it, the extractor fails with
  that rejection; when the gateway answers it, the extractor's outcome is the parse of
  the answer's text; nothing else of the gateway bears on the outcome.
\<close>

theorem extractor_embeds_prefix_and_schema:
  "substring 0 5000 t = take 5000 t
   \<and> (length t \<le> 5000 \<longrightarrow> substring 0 5000 t = t)
   \<and> contents (extractRequest t) =
       Prompt (extractPromptHead @ take 5000 t @ extractPromptTail)
   \<and> responseMimeType (contentConfig (extractRequest t)) = Some (js ''application/json'')
   \<and> responseSchema (contentConfig (extractRequest t)) =
       Some (TypeObject
         [(js ''visualStyle'', TypeString), (js ''videoConcept'', TypeString),
          (js ''socialHooks'', TypeArray TypeString), (js ''targetAudience'', TypeString)])
   \<and> (generateContent w (extractRequest t) = generateContent w' (extractRequest t) \<longrightarrow>
        extractCampaignDetails w (Some t) = extractCampaignDetails w' (Some t))
   \<and> (\<forall>e. generateContent w (extractRequest t) = Inl e \<longrightarrow>
            extractCampaignDetails w (Some t) = Inl e)
   \<and> (\<forall>r. generateContent w (extractRequest t) = Inr r \<longrightarrow>
            extractCampaignDetails w (Some t) = JSON_parse (tpl (responseText r)))"
  by (simp add: substring_prefix extractRequest_def extractPrompt_def campaignSchema_def
      noConfig_def extractCampaignDetails_def)

text \<open>
  A text of 5004 code units is cut to its first 5000 and a short one is embedded whole. A
  gateway that answers the extraction request for the text, and rejects every other
  request, gets the extractor the parsed answer; one that rejects gets it the rejection.
\<close>

theorem extractor_embeds_prefix_and_schema_witness:
  "substring 0 5000 (replicate 5000 0x61 @ js ''tail'') = replicate 5000 0x61
   \<and> substring 0 5000 (js ''Sell shoes'') = js ''Sell shoes''
   \<and> extractCampaignDetails (onlyAnswering (extractRequest (js ''Sell shoes'')) samplePayload)
        (Some (js ''Sell shoes'')) = Inr sampleDetails
   \<and> extractCampaignDetails (onlyAnswering (extractRequest (js ''Sell boots'')) samplePayload)
        (Some (js ''Sell shoes'')) = Inl (Error (js ''unexpected request''))"
proof -
  let ?t = "js ''Sell shoes''"
  let ?w = "onlyAnswering (extractRequest ?t) samplePayload"
  let ?w' = "onlyAnswering (extractRequest (js ''Sell boots'')) samplePayload"
  note long = extractor_embeds_prefix_and_schema [of "replicate 5000 0x61 @ js ''tail''" ?w ?w]
  note answered = extractor_embeds_prefix_and_schema [of ?t ?w ?w]
  note rejected = extractor_embeds_prefix_and_schema [of ?t ?w' ?w']
  have a: "generateContent ?w (extractRequest ?t) = Inr (textResponse samplePayload)"
    by (simp add: onlyAnswering_def)
  have "contents (extractRequest ?t) \<noteq> contents (extractRequest (js ''Sell boots''))"
    by (simp add: extractRequest_def extractPrompt_def substring_prefix js_def)
  then have "extractRequest ?t \<noteq> extractRequest (js ''Sell boots'')"
    by auto
  then have b: "generateContent ?w' (extractRequest ?t) = Inl (Error (js ''unexpected request''))"
    by (simp add: onlyAnswering_def)
  have p: "JSON_parse (tpl (responseText (textResponse samplePayload))) = Inr sampleDetails"
    by (simp add: textResponse_def tpl_def samplePayload_parse)
  have 1: "substring 0 5000 (replicate 5000 0x61 @ js ''tail'') = replicate 5000 0x61"
    using long by simp
  have 2: "substring 0 5000 ?t = ?t"
    using answered by (simp add: js_def)
  have 3: "extractCampaignDetails ?w (Some ?t) = Inr sampleDetails"
    using answered a p by simp
  have 4: "extractCampaignDetails ?w' (Some ?t) = Inl (Error (js ''unexpected request''))"
    using rejected b by simp
  from 1 2 3 4 show ?thesis by simp
qed

subsection \<open>The strategy handler and the campaign store\<close>

lemma handleRun_strategy:
  assumes "brandNameField st \<noteq> []" and "strategyMode st = StrategyMode"
    and "generateStrategy w (brandNameField st) (goals st) = Inr result"
  shows "handleRun w st =
    (case extractCampaignDetails w result of
       Inr details \<Rightarrow>
         st\<lparr>loading := False, extracting := False,
            outputText := (if truthy result then tpl result else js ''No strategy generated.''),
            researchUrls := [],
            campaign := Some (activate details (brandNameField st))\<rparr>
     | Inl e \<Rightarrow>
         st\<lparr>loading := False, extracting := False,
            outputText := (if truthy result then tpl result else js ''No strategy generated.''),
            researchUrls := [],
            console := console st @ [(js ''Failed to extract campaign details'', e)]\<rparr>)"
  using assms by (simp add: handleRun_def Let_def split: sum.splits)

lemma handleRun_store:
  "campaign (handleRun w st) = campaign st
   \<or> (\<exists>result details.
         brandNameField st \<noteq> [] \<and> strategyMode st = StrategyMode
         \<and> generateStrategy w (brandNameField st) (goals st) = Inr result
         \<and> extractCampaignDetails w result = Inr details
         \<and> campaign (handleRun w st) = Some (activate details (brandNameField st)))"
  by (auto simp: handleRun_def Let_def split: strategyMode.splits sum.splits prod.splits)

lemma stringField_activate:
  "k \<noteq> js ''brandName'' \<Longrightarrow> stringField (activate v brand) k = stringField (spread v) k"
  by (simp add: stringField_def activate_def update_conv')

lemma stringsField_activate:
  "k \<noteq> js ''brandName'' \<Longrightarrow> stringsField (activate v brand) k = stringsField (spread v) k"
  by (simp add: stringsField_def activate_def update_conv')

lemma map_of_activate:
  "map_of (activate v brand) k =
     (if k = js ''brandName'' then Some (JString brand) else map_of (spread v) k)"
  by (simp add: activate_def update_conv')

lemma brandName_activate: "stringField (activate v brand) (js ''brandName'') = Some brand"
  by (simp add: stringField_def map_of_activate)

lemma strings_length: "strings vs = Some ss \<Longrightarrow> length ss = length vs"
  by (induction vs arbitrary: ss rule: strings.induct) (auto split: option.splits)

lemma strings_map: "strings vs = Some ss \<Longrightarrow> vs = map JString ss"
  by (induction vs arbitrary: ss rule: strings.induct) (auto split: option.splits)

lemma requestedShape_fields:
  assumes "requestedShape v"
  shows "\<exists>kvs vs vc arr ta.
      v = JObject kvs
      \<and> map_of kvs (js ''visualStyle'') = Some (JString vs)
      \<and> map_of kvs (js ''videoConcept'') = Some (JString vc)
      \<and> map_of kvs (js ''socialHooks'') = Some (JArray arr)
      \<and> map_of kvs (js ''targetAudience'') = Some (JString ta)
      \<and> (\<forall>brand. \<exists>c.
            asActiveCampaign (activate v brand) = Some c
            \<and> brandName c = brand \<and> visualStyle c = vs \<and> videoConcept c = vc
            \<and> targetAudience c = ta
            \<and> length (socialHooks c) = length arr \<and> map JString (socialHooks c) = arr)"
proof -
  from assms obtain kvs where v: "v = JObject kvs"
    by (cases v) (auto simp: requestedShape_def)
  from assms v obtain vs vc hooks ta
    where f: "stringField kvs (js ''visualStyle'') = Some vs"
      "stringField kvs (js ''videoConcept'') = Some vc"
      "stringsField kvs (js ''socialHooks'') = Some hooks"
      "stringField kvs (js ''targetAudience'') = Some ta"
    by (auto simp: requestedShape_def)
  from f(3) obtain arr where a: "map_of kvs (js ''socialHooks'') = Some (JArray arr)"
    and s: "strings arr = Some hooks"
    by (auto simp: stringsField_def split: option.splits json.splits)
  have m: "map_of kvs (js ''visualStyle'') = Some (JString vs)"
    "map_of kvs (js ''videoConcept'') = Some (JString vc)"
    "map_of kvs (js ''targetAudience'') = Some (JString ta)"
    using f(1,2,4) by (auto simp: stringField_def split: option.splits json.splits)
  have n: "js ''visualStyle'' \<noteq> js ''brandName''" "js ''videoConcept'' \<noteq> js ''brandName''"
    "js ''socialHooks'' \<noteq> js ''brandName''" "js ''targetAudience'' \<noteq> js ''brandName''"
    by (simp_all add: js_def)
  have sp: "spread v = kvs" using v by (simp add: spread_def)
  have ac: "\<forall>brand. asActiveCampaign (activate v brand) =
      Some \<lparr>brandName = brand, visualStyle = vs, videoConcept = vc,
            socialHooks = hooks, targetAudience = ta\<rparr>"
    using f n sp
    by (simp add: asActiveCampaign_def brandName_activate stringField_activate
        stringsField_activate)
  have "\<forall>brand. \<exists>c.
      asActiveCampaign (activate v brand) = Some c
      \<and> brandName c = brand \<and> visualStyle c = vs \<and> videoConcept c = vc
      \<and> targetAudience c = ta
      \<and> length (socialHooks c) = length arr \<and> map JString (socialHooks c) = arr"
    using ac strings_length [OF s] strings_map [OF s] by simp
  with v m a show ?thesis by blast
qed

text \<open>
  Claim C5. Let the payload of the extraction response parse to a value \<open>v\<close> of the
  requested shape. The extractor returns \<open>v\<close> itself: an object whose \<open>visualStyle\<close>,
  \<open>videoConcept\<close> and \<open>targetAudience\<close> are the strings of the payload and whose
  \<open>socialHooks\<close> is its array, element for element. Spread into a campaign with any brand
  name, it reads as the campaign of that brand with these same strings and as many hooks
  as the array has elements; and that campaign is what the strategy handler stores.
\<close>

theorem extractor_preserves_fields:
  assumes "generateContent w (extractRequest t) = Inr r"
    and "JSON_parse (tpl (responseText r)) = Inr v"
    and "requestedShape v"
  shows "extractCampaignDetails w (Some t) = Inr v
    \<and> (\<exists>kvs vs vc arr ta.
          v = JObject kvs
          \<and> map_of kvs (js ''visualStyle'') = Some (JString vs)
          \<and> map_of kvs (js ''videoConcept'') = Some (JString vc)
          \<and> map_of kvs (js ''socialHooks'') = Some (JArray arr)
          \<and> map_of kvs (js ''targetAudience'') = Some (JString ta)
          \<and> (\<forall>brand. \<exists>c.
                asActiveCampaign (activate v brand) = Some c
                \<and> brandName c = brand \<and> visualStyle c = vs \<and> videoConcept c = vc
                \<and> targetAudience c = ta
                \<and> length (socialHooks c) = length arr \<and> map JString (socialHooks c) = arr))
    \<and> (brandNameField st \<noteq> [] \<and> strategyMode st = StrategyMode
        \<and> generateStrategy w (brandNameField st) (goals st) = Inr (Some t) \<longrightarrow>
          campaign (handleRun w st) = Some (activate v (brandNameField st)))"
proof (intro conjI impI)
  show e: "extractCampaignDetails w (Some t) = Inr v"
    using assms(1,2) by (simp add: extractCampaignDetails_answered)
  show "\<exists>kvs vs vc arr ta.
      v = JObject kvs
      \<and> map_of kvs (js ''visualStyle'') = Some (JString vs)
      \<and> map_of kvs (js ''videoConcept'') = Some (JString vc)
      \<and> map_of kvs (js ''socialHooks'') = Some (JArray arr)
      \<and> map_of kvs (js ''targetAudience'') = Some (JString ta)
      \<and> (\<forall>brand. \<exists>c.
            asActiveCampaign (activate v brand) = Some c
            \<and> brandName c = brand \<and> visualStyle c = vs \<and> videoConcept c = vc
            \<and> targetAudience c = ta
            \<and> length (socialHooks c) = length arr \<and> map JString (socialHooks c) = arr)"
    using assms(3) by (rule requestedShape_fields)
  assume "brandNameField st \<noteq> [] \<and> strategyMode st = StrategyMode
      \<and> generateStrategy w (brandNameField st) (goals st) = Inr (Some t)"
  then show "campaign (handleRun w st) = Some (activate v (brandNameField st))"
    using handleRun_strategy [of st w "Some t"] e by simp
qed

text \<open>
  The sample payload, sent back by the gateway, is returned as the value it denotes and
  stored with the brand name.
\<close>

theorem extractor_preserves_fields_witness:
  "extractCampaignDetails
     (mockWorld (textResponse samplePayload) pendingOperation [] pendingOperation)
     (Some samplePayload) = Inr sampleDetails
   \<and> campaign
       (handleRun (mockWorld (textResponse samplePayload) pendingOperation [] pendingOperation)
          (freshScreen (js ''Acme'') (js ''grow'')))
     = Some (activate sampleDetails (js ''Acme''))"
proof -
  let ?w = "mockWorld (textResponse samplePayload) pendingOperation [] pendingOperation"
  let ?st = "freshScreen (js ''Acme'') (js ''grow'')"
  have b: "brandNameField ?st \<noteq> []" by (simp add: fresh_fields js_def)
  have p: "JSON_parse (tpl (responseText (textResponse samplePayload))) = Inr sampleDetails"
    by (simp add: textResponse_def tpl_def samplePayload_parse)
  from extractor_preserves_fields [OF mock_content p sampleDetails_shape, where st = ?st] b
  show ?thesis by (simp add: fresh_fields mock_strategy)
qed

text \<open>
  Against claim C4 as it stands: the payload \<open>{}\<close> is valid JSON that has none of the four
  requested properties, yet the extractor does not fail on it, and the strategy handler
  stores a campaign that has a brand name and nothing else.
\<close>

theorem shape_violation_is_not_rejected:
  "JSON_parse (js ''{}'') = Inr (JObject [])
   \<and> \<not> requestedShape (JObject [])
   \<and> extractCampaignDetails
        (mockWorld (textResponse (js ''{}'')) pendingOperation [] pendingOperation)
        (Some (js ''{}'')) = Inr (JObject [])
   \<and> campaign
       (handleRun (mockWorld (textResponse (js ''{}'')) pendingOperation [] pendingOperation)
          (freshScreen (js ''Acme'') (js ''grow'')))
     = Some [(js ''brandName'', JString (js ''Acme''))]
   \<and> asActiveCampaign [(js ''brandName'', JString (js ''Acme''))] = None"
proof -
  let ?w = "mockWorld (textResponse (js ''{}'')) pendingOperation [] pendingOperation"
  let ?st = "freshScreen (js ''Acme'') (js ''grow'')"
  have p: "JSON_parse (js ''{}'') = Inr (JObject [])"
    by (simp add: JSON_parse_def js_def isWhitespace_def isDigit_def expectsValue_def)
  have s: "\<not> requestedShape (JObject [])"
    by (simp add: requestedShape_def stringField_def)
  have e: "extractCampaignDetails ?w (Some (js ''{}'')) = Inr (JObject [])"
    using p by (simp add: extractCampaignDetails_def mock_content textResponse_def tpl_def)
  have b: "brandNameField ?st \<noteq> []" by (simp add: fresh_fields js_def)
  have "campaign (handleRun ?w ?st) = Some (activate (JObject []) (js ''Acme''))"
    using handleRun_strategy [of ?st ?w "Some (js ''{}'')"] b e
    by (simp add: fresh_fields mock_strategy)
  then have c: "campaign (handleRun ?w ?st) = Some [(js ''brandName'', JString (js ''Acme''))]"
    by (simp add: activate_def spread_def)
  have a: "asActiveCampaign [(js ''brandName'', JString (js ''Acme''))] = None"
    by (simp add: asActiveCampaign_def stringField_def js_def)
  from p s e c a show ?thesis by simp
qed

text \<open>
  Claim C4, amended. When the gateway answers the extraction request, the extractor fails
  exactly when the payload is not valid JSON, and then with the \<open>SyntaxError\<close> of
  \<open>JSON.parse\<close>; a payload that is valid JSON is returned as the value it denotes, whatever
  its shape. Whenever the extraction fails in a strategy run, for this or any other
  reason, the handler leaves the campaign store as it was, writes the error to the
  console, shows no alert, shows the strategy text (not an error) as its output, and is
  idle again. The store is written only with what a successful extraction returned.
\<close>

theorem extractor_fails_on_invalid_json_only:
  "(generateContent w (extractRequest t) = Inr r \<longrightarrow>
      (extractCampaignDetails w (Some t) = Inl SyntaxError
         \<longleftrightarrow> JSON_parse (tpl (responseText r)) = Inl SyntaxError)
      \<and> (\<forall>v. JSON_parse (tpl (responseText r)) = Inr v \<longrightarrow>
               extractCampaignDetails w (Some t) = Inr v)
      \<and> (\<forall>e. extractCampaignDetails w (Some t) = Inl e \<longrightarrow> e = SyntaxError))
   \<and> (brandNameField st \<noteq> [] \<and> strategyMode st = StrategyMode
      \<and> generateStrategy w (brandNameField st) (goals st) = Inr result
      \<and> extractCampaignDetails w result = Inl e \<longrightarrow>
        campaign (handleRun w st) = campaign st
        \<and> console (handleRun w st) =
            console st @ [(js ''Failed to extract campaign details'', e)]
        \<and> alerts (handleRun w st) = alerts st
        \<and> outputText (handleRun w st) =
            (if truthy result then tpl result else js ''No strategy generated.'')
        \<and> \<not> loading (handleRun w st) \<and> \<not> extracting (handleRun w st))
   \<and> (campaign (handleRun w st) = campaign st
      \<or> (\<exists>result details.
            generateStrategy w (brandNameField st) (goals st) = Inr result
            \<and> extractCampaignDetails w result = Inr details
            \<and> campaign (handleRun w st) = Some (activate details (brandNameField st))))"
proof (intro conjI impI)
  assume a: "generateContent w (extractRequest t) = Inr r"
  show "(extractCampaignDetails w (Some t) = Inl SyntaxError)
      = (JSON_parse (tpl (responseText r)) = Inl SyntaxError)"
    by (simp add: extractCampaignDetails_answered [OF a])
  show "\<forall>v. JSON_parse (tpl (responseText r)) = Inr v \<longrightarrow>
      extractCampaignDetails w (Some t) = Inr v"
    by (simp add: extractCampaignDetails_answered [OF a])
  show "\<forall>e. extractCampaignDetails w (Some t) = Inl e \<longrightarrow> e = SyntaxError"
    using JSON_parse_error by (simp add: extractCampaignDetails_answered [OF a])
next
  assume h: "brandNameField st \<noteq> [] \<and> strategyMode st = StrategyMode
      \<and> generateStrategy w (brandNameField st) (goals st) = Inr result
      \<and> extractCampaignDetails w result = Inl e"
  then have r: "handleRun w st =
      st\<lparr>loading := False, extracting := False,
         outputText := (if truthy result then tpl result else js ''No strategy generated.''),
         researchUrls := [],
         console := console st @ [(js ''Failed to extract campaign details'', e)]\<rparr>"
    using handleRun_strategy [of st w result] by simp
  show "campaign (handleRun w st) = campaign st" by (simp add: r)
  show "console (handleRun w st) = console st @ [(js ''Failed to extract campaign details'', e)]"
    by (simp add: r)
  show "alerts (handleRun w st) = alerts st" by (simp add: r)
  show "outputText (handleRun w st) =
      (if truthy result then tpl result else js ''No strategy generated.'')"
    by (simp add: r)
  show "\<not> loading (handleRun w st)" by (simp add: r)
  show "\<not> extracting (handleRun w st)" by (simp add: r)
next
  show "campaign (handleRun w st) = campaign st
      \<or> (\<exists>result details.
            generateStrategy w (brandNameField st) (goals st) = Inr result
            \<and> extractCampaignDetails w result = Inr details
            \<and> campaign (handleRun w st) = Some (activate details (brandNameField st)))"
    using handleRun_store [of w st] by blast
qed

text \<open>
  A payload that is not JSON: the extraction fails, the store stays empty, the error is on
  the console and the output is the text the gateway sent.
\<close>

theorem extractor_fails_on_invalid_json_only_witness:
  "extractCampaignDetails
     (mockWorld (textResponse (js ''Sorry, no.'')) pendingOperation [] pendingOperation)
     (Some (js ''Sorry, no.'')) = Inl SyntaxError
   \<and> campaign
       (handleRun (mockWorld (textResponse (js ''Sorry, no.'')) pendingOperation [] pendingOperation)
          (freshScreen (js ''Acme'') (js ''grow''))) = None
   \<and> console
       (handleRun (mockWorld (textResponse (js ''Sorry, no.'')) pendingOperation [] pendingOperation)
          (freshScreen (js ''Acme'') (js ''grow'')))
     = [(js ''Failed to extract campaign details'', SyntaxError)]
   \<and> outputText
       (handleRun (mockWorld (textResponse (js ''Sorry, no.'')) pendingOperation [] pendingOperation)
          (freshScreen (js ''Acme'') (js ''grow''))) = js ''Sorry, no.''"
proof -
  let ?w = "mockWorld (textResponse (js ''Sorry, no.'')) pendingOperation [] pendingOperation"
  let ?st = "freshScreen (js ''Acme'') (js ''grow'')"
  have p: "JSON_parse (js ''Sorry, no.'') = Inl SyntaxError"
    by (simp add: JSON_parse_def js_def isWhitespace_def isDigit_def expectsValue_def)
  have e: "extractCampaignDetails ?w (Some (js ''Sorry, no.'')) = Inl SyntaxError"
    using p by (simp add: extractCampaignDetails_def mock_content textResponse_def tpl_def)
  have b: "brandNameField ?st \<noteq> []" by (simp add: fresh_fields js_def)
  have t: "truthy (Some (js ''Sorry, no.''))" by (simp add: truthy_def js_def)
  from extractor_fails_on_invalid_json_only [of ?w "js ''Sorry, no.''"
      "textResponse (js ''Sorry, no.'')" ?st "Some (js ''Sorry, no.'')" SyntaxError] b e t
  show ?thesis
    by (simp add: mock_content mock_strategy fresh_fields tpl_def)
qed

end
